theory Spec2Isabelle
  imports Complex_Main "HOL-Library.Word" "HOL-Library.Log_Nat"
begin

section \<open>Data model (program.h, led.h, pca9685.h)\<close>

text \<open>
  The firmware runs on an ESP32: \<^verbatim>\<open>unsigned long\<close> is a 32-bit word (timestamps in
  milliseconds wrap around), \<^verbatim>\<open>uint16_t\<close> a 16-bit word. Bank and channel indices are
  \<^verbatim>\<open>uint8_t\<close> in the source; they are natural numbers here, since no index arithmetic
  other than the loop increment below the (8-bit) count is performed on them.
\<close>

type_synonym millis = "32 word"
type_synonym uint16 = "16 word"

datatype ProgramType =
    PROGRAM_NONE
  | PROGRAM_WELDING
  | PROGRAM_HEARTBEAT
  | PROGRAM_BREATHING
  | PROGRAM_SIMPLE_BLINK
  | PROGRAM_TV_FLICKER
  | PROGRAM_FIREBOX_GLOW
  | PROGRAM_CANDLE_FLICKER
  | PROGRAM_FRENCH_CROSSING

text \<open>
  \<^verbatim>\<open>struct ProgramState\<close>. The \<^verbatim>\<open>JsonDocument parameters\<close> member is a map from keys to
  numbers; a key that was never written reads as 0 (see \<open>json_uint8\<close>, \<open>json_ulong\<close>).
\<close>

record ProgramState =
  last_update :: millis
  next_event :: millis
  active :: bool
  start_time :: millis
  current_intensity :: uint16
  parameters :: "string \<Rightarrow> nat option"

text \<open>\<^verbatim>\<open>new ProgramState()\<close>: value-initialised, every member zero, the document empty.\<close>

definition new_ProgramState :: ProgramState where
  "new_ProgramState =
     \<lparr>last_update = 0, next_event = 0, active = False, start_time = 0,
      current_intensity = 0, parameters = (\<lambda>k. None)\<rparr>"

definition json_uint8 :: "ProgramState \<Rightarrow> string \<Rightarrow> nat" where
  "json_uint8 state k =
     (case parameters state k of None \<Rightarrow> 0 | Some v \<Rightarrow> if v < 256 then v else 0)"

definition json_ulong :: "ProgramState \<Rightarrow> string \<Rightarrow> millis" where
  "json_ulong state k =
     (case parameters state k of None \<Rightarrow> 0 | Some v \<Rightarrow> if v < 2 ^ 32 then of_nat v else 0)"

definition json_set :: "string \<Rightarrow> nat \<Rightarrow> ProgramState \<Rightarrow> ProgramState" where
  "json_set k v state = state\<lparr>parameters := (parameters state)(k := Some v)\<rparr>"

text \<open>
  \<^verbatim>\<open>class LED\<close>. The owning raw pointer \<^verbatim>\<open>program_state_\<close> is an optional value: it is
  either null or points to a state no other LED points to (every state is created by
  \<^verbatim>\<open>new\<close> at the place it is stored, and copies never share it).
\<close>

record LED =
  name :: string
  brightness :: uint16
  enabled :: bool
  program_type :: ProgramType
  program_state :: "ProgramState option"

definition MAX_BRIGHTNESS :: uint16 where
  "MAX_BRIGHTNESS = 4095"

text \<open>Default constructor \<^verbatim>\<open>LED::LED()\<close>.\<close>

definition LED_default :: LED where
  "LED_default =
     \<lparr>name = [], brightness = 0, enabled = False,
      program_type = PROGRAM_NONE, program_state = None\<rparr>"

text \<open>Copy constructor \<^verbatim>\<open>LED::LED(const LED& other)\<close>.\<close>

definition LED_copy :: "LED \<Rightarrow> LED" where
  "LED_copy other =
     \<lparr>name = name other, brightness = brightness other, enabled = enabled other,
      program_type = program_type other, program_state = None\<rparr>"

text \<open>
  \<^verbatim>\<open>LED::operator=\<close>, for two distinct objects (\<^verbatim>\<open>this != &other\<close>; self-assignment
  leaves the object as it is).
\<close>

definition LED_assign :: "LED \<Rightarrow> LED \<Rightarrow> LED" where
  "LED_assign this other =
     this\<lparr>name := name other, brightness := brightness other, enabled := enabled other,
          program_type := program_type other, program_state := None\<rparr>"

definition setBrightness :: "uint16 \<Rightarrow> LED \<Rightarrow> LED" where
  "setBrightness b led =
     (if b > MAX_BRIGHTNESS then led\<lparr>brightness := MAX_BRIGHTNESS\<rparr>
      else led\<lparr>brightness := b\<rparr>)"

definition setEnabled :: "bool \<Rightarrow> LED \<Rightarrow> LED" where
  "setEnabled e led = led\<lparr>enabled := e\<rparr>"

definition setProgram :: "ProgramType \<Rightarrow> ProgramState option \<Rightarrow> LED \<Rightarrow> LED" where
  "setProgram pt ps led = led\<lparr>program_type := pt, program_state := ps\<rparr>"

definition hasProgram :: "LED \<Rightarrow> bool" where
  "hasProgram led = (program_type led \<noteq> PROGRAM_NONE \<and> program_state led \<noteq> None)"

text \<open>
  \<^verbatim>\<open>class PCA9685Module\<close>. \<^verbatim>\<open>led_count_\<close> is the length of the LED array (the constructor
  allocates \<^verbatim>\<open>new LED[led_count]\<close>; a moved-from module has count 0 and no array).
  The Adafruit driver behind \<^verbatim>\<open>driver_\<close> is external hardware access: it is the list of
  the \<^verbatim>\<open>setPWM(num, on, off)\<close> calls made so far, or \<open>None\<close> while the pointer is null.
  The members \<^verbatim>\<open>address_\<close>, \<^verbatim>\<open>detected_\<close> and \<^verbatim>\<open>name_\<close> are read by none of the
  functions below and are left out.
\<close>

type_synonym setPWM_call = "nat \<times> nat \<times> nat"

record PCA9685Module =
  initialized :: bool
  leds :: "LED list"
  driver :: "setPWM_call list option"

text \<open>
  The whole system: the modules of the global \<^verbatim>\<open>module_manager\<close> and the source of
  Arduino's \<^verbatim>\<open>random()\<close>. A null \<^verbatim>\<open>module_manager\<close> makes every operation below return
  at its first test, exactly as a manager without modules does (no index is below a
  module count of 0); it is the state with \<open>modules = []\<close>.
  \<open>random_source w n\<close> is the raw value the generator returns at the n-th draw from now.
\<close>

record System =
  modules :: "PCA9685Module list"
  random_source :: "nat \<Rightarrow> nat"

section \<open>Arduino primitives\<close>

text \<open>
  \<^verbatim>\<open>random(howsmall, howbig)\<close> of the Arduino core: \<^verbatim>\<open>howsmall\<close> when the range is empty
  (no draw), otherwise a value of \<^verbatim>\<open>[howsmall, howbig - 1]\<close> computed from one raw draw.
\<close>

definition random_range :: "int \<Rightarrow> int \<Rightarrow> (nat \<Rightarrow> nat) \<Rightarrow> int \<times> (nat \<Rightarrow> nat)" where
  "random_range howsmall howbig rs =
     (if howsmall \<ge> howbig then (howsmall, rs)
      else (howsmall + int (rs 0 mod nat (howbig - howsmall)), (\<lambda>n. rs (Suc n))))"

text \<open>The macro \<^verbatim>\<open>constrain(amt, low, high)\<close>.\<close>

definition constrain :: "'a::linorder \<Rightarrow> 'a \<Rightarrow> 'a \<Rightarrow> 'a" where
  "constrain amt low high = (if amt < low then low else if amt > high then high else amt)"

text \<open>
  Conversions. A floating-point value converts to an integer by truncation towards zero;
  an integer converts to \<^verbatim>\<open>uint16_t\<close> modulo \<open>2 ^ 16\<close> and to \<^verbatim>\<open>int16_t\<close> as its two's
  complement reading. Integer division truncates towards zero.
\<close>

definition truncate :: "real \<Rightarrow> int" where
  "truncate x = (if 0 \<le> x then \<lfloor>x\<rfloor> else \<lceil>x\<rceil>)"

definition to_uint16 :: "int \<Rightarrow> uint16" where
  "to_uint16 k = word_of_int k"

definition to_int16 :: "int \<Rightarrow> int" where
  "to_int16 k = sint (word_of_int k :: 16 word)"

definition c_div :: "int \<Rightarrow> int \<Rightarrow> int" where
  "c_div a b = sgn a * sgn b * (\<bar>a\<bar> div \<bar>b\<bar>)"

text \<open>
  Floating point. A \<^verbatim>\<open>float\<close> of the ESP32 is an IEEE 754 binary32 number: 24 significant
  bits, rounding to nearest, ties to even. \<open>float32 x\<close> is the \<^verbatim>\<open>float\<close> nearest to the
  real number \<open>x\<close>, for the magnitudes that occur here (neither subnormal nor beyond the
  largest \<^verbatim>\<open>float\<close>): \<open>exponent2 x\<close> is the binary exponent of a positive \<open>x\<close>, the
  \<open>e\<close> with \<open>2 ^ e \<le> x < 2 ^ (e + 1)\<close>, and the spacing of the \<^verbatim>\<open>float\<close> numbers at
  \<open>x\<close> is \<open>2 ^ (e - 23)\<close>. In the effects below \<open>float32\<close> stands wherever the
  source converts to \<^verbatim>\<open>float\<close>: a cast \<^verbatim>\<open>(float)\<close>, a store into a \<^verbatim>\<open>float\<close> variable,
  and the result of an operation whose operands are \<^verbatim>\<open>float\<close> or integer.

  An operation with a \<^verbatim>\<open>double\<close> operand (a literal such as \<^verbatim>\<open>0.7\<close>, \<^verbatim>\<open>PI\<close>, a result of
  \<^verbatim>\<open>sin\<close>, \<^verbatim>\<open>cos\<close> or \<^verbatim>\<open>exp\<close>) is computed in \<^verbatim>\<open>double\<close> by the source and in exact real
  arithmetic here, with the mathematical sine, cosine and exponential. The products of
  constants the source computes in \<^verbatim>\<open>double\<close> are exact: \<open>55 * 0.7 = 38.5\<close>,
  \<open>55 * 0.3 = 16.5\<close>, \<open>3500 * 0.6 = 2100\<close>, \<open>2500 * 0.8 = 2000\<close>, \<open>200 * 1.5 = 300\<close>,
  \<open>3800 * 0.9 = 3420\<close> and \<open>1800 * 1.2 = 2160\<close> are also what the \<^verbatim>\<open>double\<close>
  multiplication returns.
\<close>

definition pow2 :: "int \<Rightarrow> real" where
  "pow2 e = (if 0 \<le> e then 2 ^ nat e else 1 / 2 ^ nat (- e))"

definition exponent2 :: "real \<Rightarrow> int" where
  "exponent2 x = (if 1 \<le> x then bitlen \<lfloor>x\<rfloor> - 1 else - bitlen (\<lceil>1 / x\<rceil> - 1))"

definition round_half_even :: "real \<Rightarrow> int" where
  "round_half_even x =
     (let f = \<lfloor>x\<rfloor>;
          r = x - of_int f
      in if r < 1 / 2 then f else if r > 1 / 2 then f + 1 else if even f then f else f + 1)"

definition float32 :: "real \<Rightarrow> real" where
  "float32 x =
     (if x = 0 then 0
      else (let ulp = pow2 (exponent2 \<bar>x\<bar> - 23)
            in of_int (round_half_even (x / ulp)) * ulp))"

section \<open>Module manager (pca9685.cpp)\<close>

definition getModuleCount :: "System \<Rightarrow> nat" where
  "getModuleCount w = length (modules w)"

definition getModule :: "System \<Rightarrow> nat \<Rightarrow> PCA9685Module option" where
  "getModule w index = (if index \<ge> length (modules w) then None else Some (modules w ! index))"

definition getLedCount :: "PCA9685Module \<Rightarrow> nat" where
  "getLedCount mo = length (leds mo)"

definition module_getLED :: "PCA9685Module \<Rightarrow> nat \<Rightarrow> LED option" where
  "module_getLED mo led_index =
     (if led_index \<ge> getLedCount mo then None else Some (leds mo ! led_index))"

definition getLED :: "System \<Rightarrow> nat \<Rightarrow> nat \<Rightarrow> LED option" where
  "getLED w module_index led_index =
     (case getModule w module_index of
        None \<Rightarrow> None
      | Some mo \<Rightarrow> module_getLED mo led_index)"

text \<open>
  A write through the pointer returned by \<^verbatim>\<open>getLED\<close>: the LED at that place of the array
  is replaced. It is used only where \<open>getLED\<close> returned a LED.
\<close>

definition setLED :: "nat \<Rightarrow> nat \<Rightarrow> LED \<Rightarrow> System \<Rightarrow> System" where
  "setLED module_index led_index led w =
     w\<lparr>modules := (modules w)[module_index :=
          (modules w ! module_index)\<lparr>leds :=
             (leds (modules w ! module_index))[led_index := led]\<rparr>]\<rparr>"

definition module_applyLedBrightness :: "nat \<Rightarrow> PCA9685Module \<Rightarrow> bool \<times> PCA9685Module" where
  "module_applyLedBrightness led_index mo =
     (case driver mo of
        None \<Rightarrow> (False, mo)
      | Some calls \<Rightarrow>
          if \<not> initialized mo \<or> led_index \<ge> getLedCount mo then (False, mo)
          else (case module_getLED mo led_index of
                  None \<Rightarrow> (False, mo)
                | Some led \<Rightarrow>
                    if \<not> enabled led \<or> brightness led = 0
                    then (True, mo\<lparr>driver := Some (calls @ [(led_index, 0, 4096)])\<rparr>)
                    else if brightness led = MAX_BRIGHTNESS
                    then (True, mo\<lparr>driver := Some (calls @ [(led_index, 4096, 0)])\<rparr>)
                    else (True, mo\<lparr>driver :=
                            Some (calls @ [(led_index, 0, unat (brightness led))])\<rparr>)))"

definition applyLedBrightness :: "nat \<Rightarrow> nat \<Rightarrow> System \<Rightarrow> bool \<times> System" where
  "applyLedBrightness module_index led_index w =
     (case getModule w module_index of
        None \<Rightarrow> (False, w)
      | Some mo \<Rightarrow>
          (let (ok, mo') = module_applyLedBrightness led_index mo
           in (ok, w\<lparr>modules := (modules w)[module_index := mo']\<rparr>)))"


text \<open>
  A write through the pointer \<^verbatim>\<open>led_info\<close> (for instance \<^verbatim>\<open>led_info->setBrightness(b)\<close>),
  and the write-back of the members of \<^verbatim>\<open>*state\<close>, the state the LED owns.
\<close>

definition modLED :: "nat \<Rightarrow> nat \<Rightarrow> (LED \<Rightarrow> LED) \<Rightarrow> System \<Rightarrow> System" where
  "modLED module_index led_index f w =
     (case getLED w module_index led_index of
        None \<Rightarrow> w
      | Some led \<Rightarrow> setLED module_index led_index (f led) w)"

definition setState :: "nat \<Rightarrow> nat \<Rightarrow> ProgramState \<Rightarrow> System \<Rightarrow> System" where
  "setState module_index led_index state w =
     modLED module_index led_index (\<lambda>led. led\<lparr>program_state := Some state\<rparr>) w"

section \<open>Program parameters (program.cpp)\<close>

abbreviation (input) WELDING_MIN_INTERVAL :: "'a::numeral" where "WELDING_MIN_INTERVAL \<equiv> 10"
abbreviation (input) WELDING_MAX_INTERVAL :: "'a::numeral" where "WELDING_MAX_INTERVAL \<equiv> 300"
abbreviation (input) WELDING_MIN_DURATION :: "'a::numeral" where "WELDING_MIN_DURATION \<equiv> 10"
abbreviation (input) WELDING_MAX_DURATION :: "'a::numeral" where "WELDING_MAX_DURATION \<equiv> 100"
abbreviation (input) WELDING_MIN_INTENSITY :: "'a::numeral" where "WELDING_MIN_INTENSITY \<equiv> 10"
abbreviation (input) WELDING_MAX_INTENSITY :: "'a::numeral" where "WELDING_MAX_INTENSITY \<equiv> 3000"

abbreviation (input) HEARTBEAT_CYCLE_DURATION :: "'a::numeral" where "HEARTBEAT_CYCLE_DURATION \<equiv> 1000"
abbreviation (input) HEARTBEAT_BEAT1_DURATION :: "'a::numeral" where "HEARTBEAT_BEAT1_DURATION \<equiv> 100"
abbreviation (input) HEARTBEAT_PAUSE1_DURATION :: "'a::numeral" where "HEARTBEAT_PAUSE1_DURATION \<equiv> 80"
abbreviation (input) HEARTBEAT_BEAT2_DURATION :: "'a::numeral" where "HEARTBEAT_BEAT2_DURATION \<equiv> 60"
abbreviation (input) HEARTBEAT_PAUSE2_DURATION :: "'a::numeral" where "HEARTBEAT_PAUSE2_DURATION \<equiv> 760"
abbreviation (input) HEARTBEAT_INTENSITY :: "'a::numeral" where "HEARTBEAT_INTENSITY \<equiv> 3500"

abbreviation (input) BREATHING_CYCLE_DURATION :: "'a::numeral" where "BREATHING_CYCLE_DURATION \<equiv> 4000"
abbreviation (input) BREATHING_INHALE_DURATION :: "'a::numeral" where "BREATHING_INHALE_DURATION \<equiv> 1500"
abbreviation (input) BREATHING_HOLD_DURATION :: "'a::numeral" where "BREATHING_HOLD_DURATION \<equiv> 500"
abbreviation (input) BREATHING_EXHALE_DURATION :: "'a::numeral" where "BREATHING_EXHALE_DURATION \<equiv> 1500"
abbreviation (input) BREATHING_PAUSE_DURATION :: "'a::numeral" where "BREATHING_PAUSE_DURATION \<equiv> 500"
abbreviation (input) BREATHING_MAX_INTENSITY :: "'a::numeral" where "BREATHING_MAX_INTENSITY \<equiv> 4095"
abbreviation (input) BREATHING_MIN_INTENSITY :: "'a::zero" where "BREATHING_MIN_INTENSITY \<equiv> 0"

abbreviation (input) SIMPLE_BLINK_ON_DURATION :: "'a::numeral" where "SIMPLE_BLINK_ON_DURATION \<equiv> 1000"
abbreviation (input) SIMPLE_BLINK_OFF_DURATION :: "'a::numeral" where "SIMPLE_BLINK_OFF_DURATION \<equiv> 1000"
abbreviation (input) SIMPLE_BLINK_INTENSITY :: "'a::numeral" where "SIMPLE_BLINK_INTENSITY \<equiv> 4095"

abbreviation (input) TV_FLICKER_BASE_INTENSITY :: "'a::numeral" where "TV_FLICKER_BASE_INTENSITY \<equiv> 800"
abbreviation (input) TV_FLICKER_MAX_INTENSITY :: "'a::numeral" where "TV_FLICKER_MAX_INTENSITY \<equiv> 2500"
abbreviation (input) TV_FLICKER_MIN_INTENSITY :: "'a::numeral" where "TV_FLICKER_MIN_INTENSITY \<equiv> 200"
abbreviation (input) TV_FLICKER_MIN_INTERVAL :: "'a::numeral" where "TV_FLICKER_MIN_INTERVAL \<equiv> 40"
abbreviation (input) TV_FLICKER_MAX_INTERVAL :: "'a::numeral" where "TV_FLICKER_MAX_INTERVAL \<equiv> 200"
abbreviation (input) TV_FLICKER_FLASH_PROBABILITY :: "'a::numeral" where "TV_FLICKER_FLASH_PROBABILITY \<equiv> 15"
abbreviation (input) TV_FLICKER_DIM_PROBABILITY :: "'a::numeral" where "TV_FLICKER_DIM_PROBABILITY \<equiv> 10"

abbreviation (input) FIREBOX_BASE_INTENSITY :: "'a::numeral" where "FIREBOX_BASE_INTENSITY \<equiv> 2200"
abbreviation (input) FIREBOX_MAX_INTENSITY :: "'a::numeral" where "FIREBOX_MAX_INTENSITY \<equiv> 4095"
abbreviation (input) FIREBOX_MIN_INTENSITY :: "'a::numeral" where "FIREBOX_MIN_INTENSITY \<equiv> 1200"
abbreviation (input) FIREBOX_MIN_INTERVAL :: "'a::numeral" where "FIREBOX_MIN_INTERVAL \<equiv> 60"
abbreviation (input) FIREBOX_MAX_INTERVAL :: "'a::numeral" where "FIREBOX_MAX_INTERVAL \<equiv> 400"
abbreviation (input) FIREBOX_EMBER_POP_PROBABILITY :: "'a::numeral" where "FIREBOX_EMBER_POP_PROBABILITY \<equiv> 15"
abbreviation (input) FIREBOX_FLAME_SURGE_PROBABILITY :: "'a::numeral" where "FIREBOX_FLAME_SURGE_PROBABILITY \<equiv> 8"
abbreviation (input) FIREBOX_WIND_GUST_PROBABILITY :: "'a::numeral" where "FIREBOX_WIND_GUST_PROBABILITY \<equiv> 5"
abbreviation (input) FIREBOX_EMBER_DURATION :: "'a::numeral" where "FIREBOX_EMBER_DURATION \<equiv> 150"
abbreviation (input) FIREBOX_SURGE_DURATION :: "'a::numeral" where "FIREBOX_SURGE_DURATION \<equiv> 800"
abbreviation (input) FIREBOX_WIND_DURATION :: "'a::numeral" where "FIREBOX_WIND_DURATION \<equiv> 1200"

abbreviation (input) CANDLE_BASE_INTENSITY :: "'a::numeral" where "CANDLE_BASE_INTENSITY \<equiv> 2800"
abbreviation (input) CANDLE_MAX_INTENSITY :: "'a::numeral" where "CANDLE_MAX_INTENSITY \<equiv> 3800"
abbreviation (input) CANDLE_MIN_INTENSITY :: "'a::numeral" where "CANDLE_MIN_INTENSITY \<equiv> 1800"
abbreviation (input) CANDLE_MIN_INTERVAL :: "'a::numeral" where "CANDLE_MIN_INTERVAL \<equiv> 50"
abbreviation (input) CANDLE_MAX_INTERVAL :: "'a::numeral" where "CANDLE_MAX_INTERVAL \<equiv> 300"
abbreviation (input) CANDLE_STRONG_FLICKER_PROBABILITY :: "'a::numeral" where "CANDLE_STRONG_FLICKER_PROBABILITY \<equiv> 12"
abbreviation (input) CANDLE_DIP_PROBABILITY :: "'a::numeral" where "CANDLE_DIP_PROBABILITY \<equiv> 8"

abbreviation (input) FRENCH_CROSSING_ON_DURATION :: "'a::numeral" where "FRENCH_CROSSING_ON_DURATION \<equiv> 500"
abbreviation (input) FRENCH_CROSSING_OFF_DURATION :: "'a::numeral" where "FRENCH_CROSSING_OFF_DURATION \<equiv> 500"
abbreviation (input) FRENCH_CROSSING_MAX_INTENSITY :: "'a::numeral" where "FRENCH_CROSSING_MAX_INTENSITY \<equiv> 4095"
abbreviation (input) FRENCH_CROSSING_WARMUP_DURATION :: "'a::numeral" where "FRENCH_CROSSING_WARMUP_DURATION \<equiv> 100"
abbreviation (input) FRENCH_CROSSING_COOLDOWN_DURATION :: "'a::numeral" where "FRENCH_CROSSING_COOLDOWN_DURATION \<equiv> 150"
abbreviation (input) FRENCH_CROSSING_WARMUP_MIN :: "'a::zero" where "FRENCH_CROSSING_WARMUP_MIN \<equiv> 0"


definition to_uint8 :: "int \<Rightarrow> nat" where
  "to_uint8 k = nat (k mod 256)"

section \<open>State initialisation, assignment and queries (program.cpp)\<close>

text \<open>\<open>millis_now\<close> is the value \<^verbatim>\<open>millis()\<close> returns during the call.\<close>

definition initialize_default_state :: "millis \<Rightarrow> ProgramState \<Rightarrow> ProgramState" where
  "initialize_default_state millis_now state =
     state\<lparr>last_update := 0, start_time := millis_now, active := True,
           current_intensity := 0\<rparr>"

definition initialize_welding_state ::
    "millis \<Rightarrow> ProgramState \<Rightarrow> (nat \<Rightarrow> nat) \<Rightarrow> ProgramState \<times> (nat \<Rightarrow> nat)" where
  "initialize_welding_state millis_now state rs =
     (let (r, rs1) = random_range 1000 3000 rs
      in (state\<lparr>last_update := 0, next_event := millis_now + word_of_int r,
                active := False, start_time := 0, current_intensity := 0\<rparr>, rs1))"

text \<open>
  \<^verbatim>\<open>initialize_led_state\<close>. The switch passes the LED's state pointer on without a test;
  \<open>assign_program\<close> and \<open>initialize\<close> call it right after they stored a fresh state, so the
  branch without a state is never taken from them (it leaves the system as it is here).
\<close>

definition initialize_led_state :: "nat \<Rightarrow> nat \<Rightarrow> millis \<Rightarrow> System \<Rightarrow> bool \<times> System" where
  "initialize_led_state module_id led_id millis_now w =
     (if module_id \<ge> getModuleCount w then (False, w)
      else (case getModule w module_id of
        None \<Rightarrow> (False, w)
      | Some mo \<Rightarrow>
          if led_id \<ge> getLedCount mo then (False, w)
          else (case getLED w module_id led_id of
            None \<Rightarrow> (False, w)
          | Some led_info \<Rightarrow>
              (case program_state led_info of
                 None \<Rightarrow> (True, w)
               | Some state \<Rightarrow>
                   (case program_type led_info of
                      PROGRAM_NONE \<Rightarrow> (True, w)
                    | PROGRAM_WELDING \<Rightarrow>
                        (let (state', rs1) =
                               initialize_welding_state millis_now state (random_source w)
                         in (True, setState module_id led_id state'
                                     (w\<lparr>random_source := rs1\<rparr>)))
                    | _ \<Rightarrow>
                        (True, setState module_id led_id
                                 (initialize_default_state millis_now state) w))))))"

definition unassign_program :: "nat \<Rightarrow> nat \<Rightarrow> System \<Rightarrow> bool \<times> System" where
  "unassign_program module_id led_id w =
     (if module_id \<ge> getModuleCount w then (False, w)
      else (case getModule w module_id of
        None \<Rightarrow> (False, w)
      | Some mo \<Rightarrow>
          if led_id \<ge> getLedCount mo then (False, w)
          else (case getLED w module_id led_id of
            None \<Rightarrow> (False, w)
          | Some led_info \<Rightarrow>
              (let led1 = (if program_state led_info \<noteq> None
                           then setProgram (program_type led_info) None led_info
                           else led_info);
                   led2 = setProgram PROGRAM_NONE (program_state led1) led1
               in (True, setLED module_id led_id led2 w)))))"

definition assign_program :: "nat \<Rightarrow> nat \<Rightarrow> ProgramType \<Rightarrow> millis \<Rightarrow> System \<Rightarrow> bool \<times> System" where
  "assign_program module_id led_id pt millis_now w =
     (if module_id \<ge> getModuleCount w then (False, w)
      else (case getModule w module_id of
        None \<Rightarrow> (False, w)
      | Some mo \<Rightarrow>
          if led_id \<ge> getLedCount mo then (False, w)
          else (case getLED w module_id led_id of
            None \<Rightarrow> (False, w)
          | Some led_info \<Rightarrow>
              if pt = PROGRAM_NONE then unassign_program module_id led_id w
              else
                (let w1 = setLED module_id led_id
                            (setProgram pt (Some new_ProgramState) led_info) w;
                     (ok, w2) = initialize_led_state module_id led_id millis_now w1
                 in (True, w2)))))"

definition is_program_assigned :: "nat \<Rightarrow> nat \<Rightarrow> System \<Rightarrow> bool" where
  "is_program_assigned module_id led_id w =
     (if module_id \<ge> getModuleCount w then False
      else case getLED w module_id led_id of
        None \<Rightarrow> False
      | Some led \<Rightarrow> program_type led \<noteq> PROGRAM_NONE)"

definition get_program_type :: "nat \<Rightarrow> nat \<Rightarrow> System \<Rightarrow> ProgramType" where
  "get_program_type module_id led_id w =
     (if module_id \<ge> getModuleCount w then PROGRAM_NONE
      else case getLED w module_id led_id of
        None \<Rightarrow> PROGRAM_NONE
      | Some led \<Rightarrow> program_type led)"

section \<open>The effect algorithms (program.cpp)\<close>

text \<open>
  The eight \<^verbatim>\<open>update_*_program\<close> functions share one skeleton: fetch the LED (return if
  there is none) and its state, return early when the tick is throttled, compute on the
  members of \<^verbatim>\<open>*state\<close>, call \<^verbatim>\<open>led_info->setBrightness(b)\<close> followed by
  \<^verbatim>\<open>module_manager->applyLedBrightness(module_id, led_id)\<close> (whose result is ignored),
  and store \<open>last_update\<close>.

  Each effect is written as a tick function of the LED, its state and the random source.
  It returns \<open>None\<close> for the throttled early return, and otherwise the state to write
  back, the brightness values written and applied in this order, and the random source
  after its draws. \<open>run_effect\<close> is the shared skeleton that performs these writes. The
  hardware apply reads only \<^verbatim>\<open>enabled_\<close> and \<^verbatim>\<open>brightness_\<close>, so writing the state members
  back after the last apply gives the same system as the source's interleaving.
  The branch without a state (a null \<^verbatim>\<open>state\<close> pointer) is never taken from \<open>update\<close>,
  which tests the pointer first.
\<close>

type_synonym tick_result = "(ProgramState \<times> uint16 list \<times> (nat \<Rightarrow> nat)) option"

definition write_and_apply :: "nat \<Rightarrow> nat \<Rightarrow> uint16 \<Rightarrow> System \<Rightarrow> System" where
  "write_and_apply module_id led_id b w =
     snd (applyLedBrightness module_id led_id (modLED module_id led_id (setBrightness b) w))"

definition run_effect ::
    "(LED \<Rightarrow> ProgramState \<Rightarrow> (nat \<Rightarrow> nat) \<Rightarrow> tick_result) \<Rightarrow> nat \<Rightarrow> nat \<Rightarrow> System \<Rightarrow> System" where
  "run_effect tick module_id led_id w =
     (case getLED w module_id led_id of
        None \<Rightarrow> w
      | Some led_info \<Rightarrow>
          (case program_state led_info of
             None \<Rightarrow> w
           | Some state \<Rightarrow>
               (case tick led_info state (random_source w) of
                  None \<Rightarrow> w
                | Some (state', writes, rs') \<Rightarrow>
                    setState module_id led_id state'
                      (fold (write_and_apply module_id led_id) writes
                         (w\<lparr>random_source := rs'\<rparr>)))))"

definition welding_tick :: "millis \<Rightarrow> LED \<Rightarrow> ProgramState \<Rightarrow> (nat \<Rightarrow> nat) \<Rightarrow> tick_result" where
  "welding_tick current_millis led_info state rs =
     (if current_millis - last_update state < 10 then None
      else
        (let (state1, writes1, rs1) =
               (if \<not> active state \<and> current_millis \<ge> next_event state then
                  (let (intensity, ra) =
                         random_range WELDING_MIN_INTENSITY (WELDING_MAX_INTENSITY + 1) rs;
                       (welding_duration, rb) =
                         random_range WELDING_MIN_DURATION (WELDING_MAX_DURATION + 1) ra;
                       (next_interval, rc) =
                         random_range WELDING_MIN_INTERVAL (WELDING_MAX_INTERVAL + 1) rb;
                       st = state\<lparr>active := True, start_time := current_millis,
                                  current_intensity := to_uint16 intensity,
                                  next_event := current_millis + word_of_int welding_duration
                                                + word_of_int next_interval\<rparr>
                   in (st, [current_intensity st], rc))
                else (state, [], rs));
             (state2, writes2, rs2) =
               (if active state1 then
                  (let elapsed_time = current_millis - start_time state1;
                       current_welding_duration =
                         (WELDING_MIN_DURATION + WELDING_MAX_DURATION) div 2 :: millis
                   in if real (unat elapsed_time) < real (unat current_welding_duration) * 0.7
                      then
                        (let (r, ra) = random_range (- 200) 201 rs1;
                             variation = to_uint16 r;
                             current_brightness =
                               to_uint16 (constrain
                                 (uint (current_intensity state1) + uint variation) 0 4095)
                         in (state1, [current_brightness], ra))
                      else if elapsed_time < current_welding_duration
                      then
                        (let fade_progress =
                               float32
                                 (float32 (real (unat elapsed_time)
                                             - real (unat current_welding_duration) * 0.7)
                                    / (real (unat current_welding_duration) * 0.3));
                             current_brightness =
                               to_uint16 (truncate
                                 (real (unat (current_intensity state1))
                                    * (1.0 - fade_progress)))
                         in (state1, [current_brightness], rs1))
                      else (state1\<lparr>active := False\<rparr>, [0], rs1))
                else (state1, [], rs1))
         in Some (state2\<lparr>last_update := current_millis\<rparr>, writes1 @ writes2, rs2)))"

definition heartbeat_tick :: "millis \<Rightarrow> LED \<Rightarrow> ProgramState \<Rightarrow> (nat \<Rightarrow> nat) \<Rightarrow> tick_result" where
  "heartbeat_tick current_millis led_info state rs =
     (if current_millis - last_update state < 20 then None
      else
        (let state1 = (if start_time state = 0
                       then state\<lparr>start_time := current_millis\<rparr> else state);
             cycle_time = (current_millis - start_time state1) mod HEARTBEAT_CYCLE_DURATION;
             target_brightness =
               (if cycle_time < HEARTBEAT_BEAT1_DURATION then HEARTBEAT_INTENSITY
                else if cycle_time < HEARTBEAT_BEAT1_DURATION + HEARTBEAT_PAUSE1_DURATION
                then 0
                else if cycle_time < HEARTBEAT_BEAT1_DURATION + HEARTBEAT_PAUSE1_DURATION
                                      + HEARTBEAT_BEAT2_DURATION
                then to_uint16 (truncate (HEARTBEAT_INTENSITY * 0.6))
                else 0)
         in Some (state1\<lparr>last_update := current_millis\<rparr>, [target_brightness], rs)))"

definition breathing_tick :: "millis \<Rightarrow> LED \<Rightarrow> ProgramState \<Rightarrow> (nat \<Rightarrow> nat) \<Rightarrow> tick_result" where
  "breathing_tick current_millis led_info state rs =
     (if current_millis - last_update state < 20 then None
      else
        (let state1 = (if start_time state = 0
                       then state\<lparr>start_time := current_millis\<rparr> else state);
             cycle_time = (current_millis - start_time state1) mod BREATHING_CYCLE_DURATION;
             target_brightness =
               (if cycle_time < BREATHING_INHALE_DURATION then
                  (let progress =
                         float32 (float32 (real (unat cycle_time)) / BREATHING_INHALE_DURATION);
                       sine_progress = float32 (sin (progress * pi / 2))
                   in to_uint16 (truncate
                        (float32 (BREATHING_MAX_INTENSITY * sine_progress))))
                else if cycle_time < BREATHING_INHALE_DURATION + BREATHING_HOLD_DURATION
                then BREATHING_MAX_INTENSITY
                else if cycle_time < BREATHING_INHALE_DURATION + BREATHING_HOLD_DURATION
                                      + BREATHING_EXHALE_DURATION
                then
                  (let exhale_time = cycle_time - BREATHING_INHALE_DURATION
                                       - BREATHING_HOLD_DURATION;
                       progress =
                         float32 (float32 (real (unat exhale_time)) / BREATHING_EXHALE_DURATION);
                       sine_progress = float32 (cos (progress * pi / 2))
                   in to_uint16 (truncate
                        (float32 (BREATHING_MAX_INTENSITY * sine_progress))))
                else BREATHING_MIN_INTENSITY)
         in Some (state1\<lparr>last_update := current_millis\<rparr>, [target_brightness], rs)))"

definition simple_blink_tick :: "millis \<Rightarrow> LED \<Rightarrow> ProgramState \<Rightarrow> (nat \<Rightarrow> nat) \<Rightarrow> tick_result" where
  "simple_blink_tick current_millis led_info state rs =
     (if current_millis - last_update state < 50 then None
      else
        (let state1 = (if start_time state = 0
                       then state\<lparr>start_time := current_millis\<rparr> else state);
             cycle_time = (current_millis - start_time state1)
                            mod (SIMPLE_BLINK_ON_DURATION + SIMPLE_BLINK_OFF_DURATION);
             target_brightness =
               (if cycle_time < SIMPLE_BLINK_ON_DURATION then SIMPLE_BLINK_INTENSITY
                else 0)
         in Some (state1\<lparr>last_update := current_millis\<rparr>, [target_brightness], rs)))"

definition tv_flicker_tick :: "millis \<Rightarrow> LED \<Rightarrow> ProgramState \<Rightarrow> (nat \<Rightarrow> nat) \<Rightarrow> tick_result" where
  "tv_flicker_tick current_millis led_info state rs =
     (if current_millis - last_update state < 20 then None
      else
        (let (state1, writes, rs1) =
               (if \<not> active state \<or> current_millis \<ge> next_event state then
                  (let (rv, ra) = random_range 0 100 rs;
                       random_value = to_uint8 rv;
                       (intensity, rb) =
                         (if random_value < TV_FLICKER_FLASH_PROBABILITY then
                            random_range (truncate (TV_FLICKER_MAX_INTENSITY * 0.8))
                                         (TV_FLICKER_MAX_INTENSITY + 1) ra
                          else if random_value < TV_FLICKER_FLASH_PROBABILITY
                                                  + TV_FLICKER_DIM_PROBABILITY then
                            random_range TV_FLICKER_MIN_INTENSITY
                                         (truncate (TV_FLICKER_MIN_INTENSITY * 1.5)) ra
                          else
                            (let (v, re) = random_range (- 200) 201 ra;
                                 variation = to_int16 v
                             in (constrain (TV_FLICKER_BASE_INTENSITY + variation)
                                   TV_FLICKER_MIN_INTENSITY TV_FLICKER_MAX_INTENSITY, re)));
                       (next_interval, rc) =
                         random_range TV_FLICKER_MIN_INTERVAL (TV_FLICKER_MAX_INTERVAL + 1) rb;
                       (mv, rd) = random_range (- 50) 51 rc;
                       micro_variation = to_int16 mv;
                       st = state\<lparr>active := True,
                                  current_intensity := to_uint16 intensity,
                                  next_event := current_millis + word_of_int next_interval\<rparr>;
                       final_intensity =
                         to_uint16 (constrain (uint (current_intensity st) + micro_variation)
                                      TV_FLICKER_MIN_INTENSITY TV_FLICKER_MAX_INTENSITY)
                   in (st, [final_intensity], rd))
                else (state, [], rs))
         in Some (state1\<lparr>last_update := current_millis\<rparr>, writes, rs1)))"

definition firebox_glow_tick :: "millis \<Rightarrow> LED \<Rightarrow> ProgramState \<Rightarrow> (nat \<Rightarrow> nat) \<Rightarrow> tick_result" where
  "firebox_glow_tick current_millis led_info state rs =
     (if current_millis - last_update state < 20 then None
      else
        (let (state1, rs1) =
               (if start_time state = 0 then
                  (let (r, ra) =
                         random_range FIREBOX_MIN_INTERVAL (FIREBOX_MAX_INTERVAL + 1) rs
                   in (json_set ''effect_start_time'' 0
                         (json_set ''effect_type'' 0
                            (state\<lparr>start_time := current_millis,
                                   next_event := current_millis + word_of_int r,
                                   current_intensity := FIREBOX_BASE_INTENSITY\<rparr>)), ra))
                else (state, rs));
             current_effect = json_uint8 state1 ''effect_type'';
             effect_start = json_ulong state1 ''effect_start_time'';
             effect_duration = current_millis - effect_start;
             (target0, state2) =
               (if current_effect > 0 then
                  (if current_effect = 1 then
                     (if effect_duration < FIREBOX_EMBER_DURATION then
                        (let progress =
                               float32 (float32 (real (unat effect_duration))
                                          / FIREBOX_EMBER_DURATION)
                         in (if progress < 0.2
                             then to_uint16 (truncate
                                    (FIREBOX_BASE_INTENSITY + 1800 * (progress / 0.2)))
                             else to_uint16 (truncate
                                    (FIREBOX_BASE_INTENSITY
                                      + 1800 * (1.0 - (progress - 0.2) / 0.8))), state1))
                      else (FIREBOX_BASE_INTENSITY, json_set ''effect_type'' 0 state1))
                   else if current_effect = 2 then
                     (if effect_duration < FIREBOX_SURGE_DURATION then
                        (let progress =
                               float32 (float32 (real (unat effect_duration))
                                          / FIREBOX_SURGE_DURATION);
                             surge_intensity =
                               (if progress < 0.3 then float32 (progress / 0.3)
                                else if progress < 0.7
                                then float32 (1.0 + 0.2 * sin (progress * pi * 8))
                                else float32 ((1.0 - progress) / 0.3))
                         in (to_uint16 (truncate
                               (float32 (FIREBOX_BASE_INTENSITY
                                           + float32 (1500 * surge_intensity)))), state1))
                      else (FIREBOX_BASE_INTENSITY, json_set ''effect_type'' 0 state1))
                   else if current_effect = 3 then
                     (if effect_duration < FIREBOX_WIND_DURATION then
                        (let progress =
                               float32 (float32 (real (unat effect_duration))
                                          / FIREBOX_WIND_DURATION);
                             wind_factor0 =
                               float32 (sin (progress * pi * 3) * sin (progress * pi * 7)
                                          * sin (progress * pi * 11));
                             wind_factor = float32 (wind_factor0 * (1.0 - progress))
                         in (to_uint16 (truncate
                               (float32 (FIREBOX_BASE_INTENSITY
                                           + float32 (800 * wind_factor)))), state1))
                      else (FIREBOX_BASE_INTENSITY, json_set ''effect_type'' 0 state1))
                   else (FIREBOX_BASE_INTENSITY, state1))
                else (FIREBOX_BASE_INTENSITY, state1));
             (state3, rs2) =
               (if current_effect = 0 \<and> current_millis \<ge> next_event state2 then
                  (let (rv, ra) = random_range 0 100 rs1;
                       random_value = to_uint8 rv;
                       st =
                         (if random_value < FIREBOX_EMBER_POP_PROBABILITY then
                            json_set ''effect_start_time'' (unat current_millis)
                              (json_set ''effect_type'' 1 state2)
                          else if random_value < FIREBOX_EMBER_POP_PROBABILITY
                                                  + FIREBOX_FLAME_SURGE_PROBABILITY then
                            json_set ''effect_start_time'' (unat current_millis)
                              (json_set ''effect_type'' 2 state2)
                          else if random_value < FIREBOX_EMBER_POP_PROBABILITY
                                                  + FIREBOX_FLAME_SURGE_PROBABILITY
                                                  + FIREBOX_WIND_GUST_PROBABILITY then
                            json_set ''effect_start_time'' (unat current_millis)
                              (json_set ''effect_type'' 3 state2)
                          else state2);
                       (r, rb) =
                         random_range FIREBOX_MIN_INTERVAL (FIREBOX_MAX_INTERVAL + 1) ra
                   in (st\<lparr>next_event := current_millis + word_of_int r\<rparr>, rb))
                else (state2, rs1));
             (target1, rs3) =
               (if current_effect = 0 then
                  (let (bv, ra) = random_range (- 400) 401 rs2;
                       base_variation = to_int16 bv
                   in (to_uint16 (constrain (FIREBOX_BASE_INTENSITY + base_variation)
                                    FIREBOX_MIN_INTENSITY FIREBOX_MAX_INTENSITY), ra))
                else (target0, rs2));
             (mv, rs4) = random_range (- 100) 101 rs3;
             micro_variation = to_int16 mv;
             target2 = to_uint16 (constrain (uint target1 + micro_variation)
                                    FIREBOX_MIN_INTENSITY FIREBOX_MAX_INTENSITY);
             current_brightness = brightness led_info;
             intensity_diff = to_int16 (uint target2 - uint current_brightness);
             target_intensity =
               (if \<bar>intensity_diff\<bar> > 300 \<and> current_effect \<noteq> 1 then
                  (if intensity_diff > 0 then to_uint16 (uint current_brightness + 150)
                   else to_uint16 (uint current_brightness - 150))
                else target2)
         in Some (state3\<lparr>last_update := current_millis\<rparr>, [target_intensity], rs4)))"

definition candle_flicker_tick :: "millis \<Rightarrow> LED \<Rightarrow> ProgramState \<Rightarrow> (nat \<Rightarrow> nat) \<Rightarrow> tick_result" where
  "candle_flicker_tick current_millis led_info state rs =
     (if current_millis - last_update state < 25 then None
      else
        (let (state1, rs1) =
               (if start_time state = 0 then
                  (let (r, ra) =
                         random_range CANDLE_MIN_INTERVAL (CANDLE_MAX_INTERVAL + 1) rs
                   in (state\<lparr>start_time := current_millis,
                              next_event := current_millis + word_of_int r,
                              current_intensity := CANDLE_BASE_INTENSITY\<rparr>, ra))
                else (state, rs));
             (state2, rs2) =
               (if current_millis \<ge> next_event state1 then
                  (let (rv, ra) = random_range 0 100 rs1;
                       random_value = to_uint8 rv;
                       (intensity, rb) =
                         (if random_value < CANDLE_STRONG_FLICKER_PROBABILITY then
                            random_range (truncate (CANDLE_MAX_INTENSITY * 0.9))
                                         (CANDLE_MAX_INTENSITY + 1) ra
                          else if random_value < CANDLE_STRONG_FLICKER_PROBABILITY
                                                  + CANDLE_DIP_PROBABILITY then
                            random_range CANDLE_MIN_INTENSITY
                                         (truncate (CANDLE_MIN_INTENSITY * 1.2)) ra
                          else
                            (let (v, re) = random_range (- 150) 151 ra;
                                 gentle_variation = to_int16 v
                             in (constrain (CANDLE_BASE_INTENSITY + gentle_variation)
                                   CANDLE_MIN_INTENSITY CANDLE_MAX_INTENSITY, re)));
                       (next_interval, rc) =
                         random_range CANDLE_MIN_INTERVAL (CANDLE_MAX_INTERVAL + 1) rb
                   in (state1\<lparr>current_intensity := to_uint16 intensity,
                               next_event := current_millis + word_of_int next_interval\<rparr>,
                       rc))
                else (state1, rs1));
             (sv, rs3) = random_range (- 30) 31 rs2;
             subtle_variation = to_int16 sv;
             target0 = to_uint16 (constrain (uint (current_intensity state2) + subtle_variation)
                                    CANDLE_MIN_INTENSITY CANDLE_MAX_INTENSITY);
             current_brightness = brightness led_info;
             intensity_diff = to_int16 (uint target0 - uint current_brightness);
             target_intensity =
               (if \<bar>intensity_diff\<bar> > 200 then
                  (if intensity_diff > 0 then to_uint16 (uint current_brightness + 80)
                   else to_uint16 (uint current_brightness - 80))
                else if \<bar>intensity_diff\<bar> > 50 then
                  to_uint16 (uint current_brightness + c_div intensity_diff 3)
                else target0)
         in Some (state2\<lparr>last_update := current_millis\<rparr>, [target_intensity], rs3)))"

definition french_crossing_tick :: "millis \<Rightarrow> LED \<Rightarrow> ProgramState \<Rightarrow> (nat \<Rightarrow> nat) \<Rightarrow> tick_result" where
  "french_crossing_tick current_millis led_info state rs =
     (if current_millis - last_update state < 10 then None
      else
        (let state1 =
               (if start_time state = 0 then
                  json_set ''current_phase'' 0
                    (json_set ''phase_start_time'' (unat current_millis)
                       (state\<lparr>start_time := current_millis\<rparr>))
                else state);
             cycle_time = (current_millis - start_time state1)
                            mod (FRENCH_CROSSING_ON_DURATION + FRENCH_CROSSING_OFF_DURATION);
             phase_start0 = json_ulong state1 ''phase_start_time'';
             current_phase0 = json_uint8 state1 ''current_phase'';
             should_be_on = (cycle_time < FRENCH_CROSSING_ON_DURATION);
             (state2, phase_start, current_phase) =
               (if (should_be_on \<and> current_phase0 = 0)
                     \<or> (\<not> should_be_on \<and> current_phase0 = 1) then
                  (json_set ''current_phase'' (if should_be_on then 1 else 0)
                     (json_set ''phase_start_time'' (unat current_millis) state1),
                   current_millis, if should_be_on then 1 else 0)
                else (state1, phase_start0, current_phase0));
             phase_time = current_millis - phase_start;
             (target_brightness, rs1) =
               (if current_phase = 1 then
                  (if phase_time < FRENCH_CROSSING_WARMUP_DURATION then
                     (let warmup_progress =
                            float32 (float32 (real (unat phase_time))
                                       / FRENCH_CROSSING_WARMUP_DURATION);
                          exponential_progress = float32 (1.0 - exp (- 4.0 * warmup_progress))
                      in (to_uint16 (truncate
                            (float32 (FRENCH_CROSSING_WARMUP_MIN
                              + float32
                                  ((FRENCH_CROSSING_MAX_INTENSITY - FRENCH_CROSSING_WARMUP_MIN)
                                     * exponential_progress)))), rs))
                   else
                     (let (sv, ra) = random_range (- 25) 26 rs;
                          stability_variation = to_int16 sv
                      in (to_uint16 (constrain
                            (FRENCH_CROSSING_MAX_INTENSITY + stability_variation)
                            (FRENCH_CROSSING_MAX_INTENSITY - 50)
                            FRENCH_CROSSING_MAX_INTENSITY), ra)))
                else
                  (if phase_time < FRENCH_CROSSING_COOLDOWN_DURATION then
                     (let cooldown_progress =
                            float32 (float32 (real (unat phase_time))
                                       / FRENCH_CROSSING_COOLDOWN_DURATION);
                          exponential_decay = float32 (exp (- 2.0 * cooldown_progress))
                      in (to_uint16 (truncate
                            (float32 (FRENCH_CROSSING_WARMUP_MIN * exponential_decay))), rs))
                   else (0, rs)))
         in Some (state2\<lparr>last_update := current_millis\<rparr>, [target_brightness], rs1)))"

definition update_welding_program :: "nat \<Rightarrow> nat \<Rightarrow> millis \<Rightarrow> System \<Rightarrow> System" where
  "update_welding_program module_id led_id current_millis w =
     run_effect (welding_tick current_millis) module_id led_id w"

definition update_heartbeat_program :: "nat \<Rightarrow> nat \<Rightarrow> millis \<Rightarrow> System \<Rightarrow> System" where
  "update_heartbeat_program module_id led_id current_millis w =
     run_effect (heartbeat_tick current_millis) module_id led_id w"

definition update_breathing_program :: "nat \<Rightarrow> nat \<Rightarrow> millis \<Rightarrow> System \<Rightarrow> System" where
  "update_breathing_program module_id led_id current_millis w =
     run_effect (breathing_tick current_millis) module_id led_id w"

definition update_simple_blink_program :: "nat \<Rightarrow> nat \<Rightarrow> millis \<Rightarrow> System \<Rightarrow> System" where
  "update_simple_blink_program module_id led_id current_millis w =
     run_effect (simple_blink_tick current_millis) module_id led_id w"

definition update_tv_flicker_program :: "nat \<Rightarrow> nat \<Rightarrow> millis \<Rightarrow> System \<Rightarrow> System" where
  "update_tv_flicker_program module_id led_id current_millis w =
     run_effect (tv_flicker_tick current_millis) module_id led_id w"

definition update_firebox_glow_program :: "nat \<Rightarrow> nat \<Rightarrow> millis \<Rightarrow> System \<Rightarrow> System" where
  "update_firebox_glow_program module_id led_id current_millis w =
     run_effect (firebox_glow_tick current_millis) module_id led_id w"

definition update_candle_flicker_program :: "nat \<Rightarrow> nat \<Rightarrow> millis \<Rightarrow> System \<Rightarrow> System" where
  "update_candle_flicker_program module_id led_id current_millis w =
     run_effect (candle_flicker_tick current_millis) module_id led_id w"

definition update_french_crossing_program :: "nat \<Rightarrow> nat \<Rightarrow> millis \<Rightarrow> System \<Rightarrow> System" where
  "update_french_crossing_program module_id led_id current_millis w =
     run_effect (french_crossing_tick current_millis) module_id led_id w"

section \<open>The update dispatch (program.cpp)\<close>

text \<open>The body of the inner loop of \<^verbatim>\<open>ProgramManager::update\<close> for LED \<open>j\<close> of module \<open>i\<close>.\<close>

definition update_led :: "millis \<Rightarrow> nat \<Rightarrow> nat \<Rightarrow> System \<Rightarrow> System" where
  "update_led current_millis i j w =
     (case getLED w i j of
        None \<Rightarrow> w
      | Some led_info \<Rightarrow>
          if enabled led_info \<and> program_type led_info \<noteq> PROGRAM_NONE
               \<and> program_state led_info \<noteq> None
          then (case program_type led_info of
                  PROGRAM_NONE \<Rightarrow> w
                | PROGRAM_WELDING \<Rightarrow> update_welding_program i j current_millis w
                | PROGRAM_HEARTBEAT \<Rightarrow> update_heartbeat_program i j current_millis w
                | PROGRAM_BREATHING \<Rightarrow> update_breathing_program i j current_millis w
                | PROGRAM_SIMPLE_BLINK \<Rightarrow> update_simple_blink_program i j current_millis w
                | PROGRAM_TV_FLICKER \<Rightarrow> update_tv_flicker_program i j current_millis w
                | PROGRAM_FIREBOX_GLOW \<Rightarrow> update_firebox_glow_program i j current_millis w
                | PROGRAM_CANDLE_FLICKER \<Rightarrow> update_candle_flicker_program i j current_millis w
                | PROGRAM_FRENCH_CROSSING \<Rightarrow> update_french_crossing_program i j current_millis w)
          else w)"

text \<open>
  The two loops: modules in index order, and for each module its LEDs in index order.
  The loop bounds \<^verbatim>\<open>getModuleCount()\<close> and \<^verbatim>\<open>getLedCount()\<close> are read again at every
  iteration in the source; no effect changes them (lemma \<open>shape_update_led\<close> below), so
  the index lists are those of the state the loop is entered with.
\<close>

definition update_module :: "millis \<Rightarrow> nat \<Rightarrow> System \<Rightarrow> System" where
  "update_module current_millis i w =
     (case getModule w i of
        None \<Rightarrow> w
      | Some mo \<Rightarrow> fold (update_led current_millis i) [0..<getLedCount mo] w)"

definition update :: "millis \<Rightarrow> System \<Rightarrow> System" where
  "update current_millis w = fold (update_module current_millis) [0..<getModuleCount w] w"

section \<open>Properties: vocabulary\<close>

text \<open>The eight effect algorithms, in the order of the dispatch.\<close>

definition effect_algorithms :: "(nat \<Rightarrow> nat \<Rightarrow> millis \<Rightarrow> System \<Rightarrow> System) list" where
  "effect_algorithms =
     [update_welding_program, update_heartbeat_program, update_breathing_program,
      update_simple_blink_program, update_tv_flicker_program, update_firebox_glow_program,
      update_candle_flicker_program, update_french_crossing_program]"

text \<open>A location is valid when the tests at the head of \<open>assign_program\<close> all pass.\<close>

definition valid_location :: "System \<Rightarrow> nat \<Rightarrow> nat \<Rightarrow> bool" where
  "valid_location w module_id led_id =
     (module_id < getModuleCount w \<and> led_id < getLedCount (modules w ! module_id))"

definition all_leds :: "System \<Rightarrow> LED list" where
  "all_leds w = concat (map leds (modules w))"

definition shape :: "System \<Rightarrow> nat list" where
  "shape w = map getLedCount (modules w)"

text \<open>The duty value of a channel, and the duty invariant: every stored duty is at most 4095.\<close>

definition duty_at :: "System \<Rightarrow> nat \<Rightarrow> nat \<Rightarrow> uint16 option" where
  "duty_at w module_id led_id = map_option brightness (getLED w module_id led_id)"

definition duty_ok :: "LED \<Rightarrow> bool" where
  "duty_ok led = (unat (brightness led) \<le> 4095)"

definition duty_inv :: "System \<Rightarrow> bool" where
  "duty_inv w = list_all duty_ok (all_leds w)"

text \<open>
  The \<^verbatim>\<open>setPWM\<close> calls a hardware apply can make for a duty in range: full off, full on,
  or the duty itself as the off-count, strictly between 0 and 4095.
\<close>

definition pwm_ok :: "setPWM_call \<Rightarrow> bool" where
  "pwm_ok c =
     (case c of (num, on, off) \<Rightarrow>
        (on = 0 \<and> off = 4096) \<or> (on = 4096 \<and> off = 0) \<or> (on = 0 \<and> 0 < off \<and> off < 4095))"

definition setPWM_calls :: "PCA9685Module \<Rightarrow> setPWM_call list" where
  "setPWM_calls mo = (case driver mo of None \<Rightarrow> [] | Some calls \<Rightarrow> calls)"

definition pwm_inv :: "System \<Rightarrow> bool" where
  "pwm_inv w = list_all (\<lambda>mo. list_all pwm_ok (setPWM_calls mo)) (modules w)"

text \<open>The invariant of the data model: the kind is None exactly when there is no state.\<close>

definition kind_state_ok :: "LED \<Rightarrow> bool" where
  "kind_state_ok led = (program_type led = PROGRAM_NONE \<longleftrightarrow> program_state led = None)"

definition kind_state_inv :: "System \<Rightarrow> bool" where
  "kind_state_inv w = list_all kind_state_ok (all_leds w)"

text \<open>
  The state \<open>assign_program\<close> stores for a kind other than None (the switch of
  \<open>initialize_led_state\<close> applied to a fresh state), with the random source after it.
\<close>

definition initial_state ::
    "ProgramType \<Rightarrow> millis \<Rightarrow> (nat \<Rightarrow> nat) \<Rightarrow> ProgramState \<times> (nat \<Rightarrow> nat)" where
  "initial_state pt millis_now rs =
     (if pt = PROGRAM_WELDING then initialize_welding_state millis_now new_ProgramState rs
      else (initialize_default_state millis_now new_ProgramState, rs))"

text \<open>The refresh-rate test at the head of every effect.\<close>

definition throttled :: "millis \<Rightarrow> millis \<Rightarrow> ProgramState \<Rightarrow> bool" where
  "throttled rate current_millis state = (current_millis - last_update state < rate)"

text \<open>
  Observers for a single tick of an effect. \<open>last_update_at\<close> reads the time stamp of a
  channel's state. \<open>setPWM_call_for\<close> is the call \<open>module_applyLedBrightness\<close> makes for
  a LED. A module is ready when the hardware apply does not fail on it; on a module that
  is not ready the apply is invoked all the same, returns false and makes no call.
  \<open>computed_duties\<close> are the duties an effect computes on a tick, in the order in which it
  writes them (none when the tick is throttled).
  \<open>tick_outcome now i j w w' duties\<close> says what a tick that computed \<open>duties\<close> leaves
  behind in the channel: the state is stamped with \<open>now\<close>; the stored duty is the last of
  \<open>duties\<close> as \<open>setBrightness\<close> stores it (and the duty of before when there is none);
  and the \<^verbatim>\<open>setPWM\<close> calls of the module are those of before followed, on a ready
  module, by one call for each of \<open>duties\<close>, which carries that duty.
\<close>

definition last_update_at :: "System \<Rightarrow> nat \<Rightarrow> nat \<Rightarrow> millis option" where
  "last_update_at w module_id led_id =
     (case getLED w module_id led_id of
        None \<Rightarrow> None
      | Some led \<Rightarrow> map_option last_update (program_state led))"

definition setPWM_call_for :: "nat \<Rightarrow> LED \<Rightarrow> setPWM_call" where
  "setPWM_call_for led_index led =
     (if \<not> enabled led \<or> brightness led = 0 then (led_index, 0, 4096)
      else if brightness led = MAX_BRIGHTNESS then (led_index, 4096, 0)
      else (led_index, 0, unat (brightness led)))"

definition hardware_ready :: "System \<Rightarrow> nat \<Rightarrow> bool" where
  "hardware_ready w module_id =
     (module_id < getModuleCount w \<and> initialized (modules w ! module_id)
      \<and> driver (modules w ! module_id) \<noteq> None)"

definition computed_duties ::
    "(LED \<Rightarrow> ProgramState \<Rightarrow> (nat \<Rightarrow> nat) \<Rightarrow> tick_result) \<Rightarrow> LED \<Rightarrow> ProgramState \<Rightarrow> System
       \<Rightarrow> uint16 list" where
  "computed_duties tick led state w =
     (case tick led state (random_source w) of
        None \<Rightarrow> []
      | Some (state', duties, rs') \<Rightarrow> duties)"

text \<open>The \<^verbatim>\<open>setPWM\<close> calls of a sequence of brightness writes, each followed by an apply.\<close>

fun apply_trace :: "nat \<Rightarrow> LED \<Rightarrow> uint16 list \<Rightarrow> setPWM_call list" where
  "apply_trace j led [] = []"
| "apply_trace j led (b # bs) =
     setPWM_call_for j (setBrightness b led) # apply_trace j (setBrightness b led) bs"

definition tick_outcome ::
    "millis \<Rightarrow> nat \<Rightarrow> nat \<Rightarrow> System \<Rightarrow> System \<Rightarrow> uint16 list \<Rightarrow> bool" where
  "tick_outcome now module_id led_id w w' duties =
     (case (getLED w module_id led_id, getLED w' module_id led_id) of
        (Some led, Some led') \<Rightarrow>
          map_option last_update (program_state led') = Some now
          \<and> brightness led' = brightness (fold setBrightness duties led)
          \<and> setPWM_calls (modules w' ! module_id)
                = setPWM_calls (modules w ! module_id)
                    @ (if hardware_ready w module_id then apply_trace led_id led duties else [])
      | _ \<Rightarrow> False)"

text \<open>
  The cool-down of the French crossing lamp as the specification words it: during the
  cool-down window the duty is the intensity the lamp had when the OFF phase began, scaled
  by \<open>exp (- 2 * progress)\<close>, and 0 after the window. It is compared with what
  \<open>french_crossing_tick\<close> writes.
\<close>

definition spec_cooldown_duty :: "uint16 \<Rightarrow> millis \<Rightarrow> uint16" where
  "spec_cooldown_duty intensity_at_phase_start phase_time =
     (if phase_time < FRENCH_CROSSING_COOLDOWN_DURATION
      then to_uint16 (truncate
             (real (unat intensity_at_phase_start)
                * exp (- 2 * (real (unat phase_time) / FRENCH_CROSSING_COOLDOWN_DURATION))))
      else 0)"

section \<open>Properties: example systems\<close>

text \<open>
  A system for the examples: one initialised module with two LEDs, the first enabled,
  none with a program, and a random source that always draws 0.
\<close>

definition example_system :: System where
  "example_system =
     \<lparr>modules = [\<lparr>initialized = True,
                  leds = [LED_default\<lparr>enabled := True\<rparr>, LED_default],
                  driver = Some []\<rparr>],
      random_source = (\<lambda>n. 0)\<rparr>"

text \<open>A LED that runs the welding program, as \<open>assign_program\<close> leaves it.\<close>

definition example_welding_led :: LED where
  "example_welding_led =
     LED_default\<lparr>enabled := True, program_type := PROGRAM_WELDING,
                 program_state := Some (new_ProgramState\<lparr>next_event := 6000\<rparr>)\<rparr>"

text \<open>
  The example system after the welding program was assigned at time 5000 to its first LED
  (the first flash is due at 6000).
\<close>

definition example_welding_system :: System where
  "example_welding_system =
     \<lparr>modules = [\<lparr>initialized = True,
                  leds = [example_welding_led, LED_default],
                  driver = Some []\<rparr>],
      random_source = (\<lambda>n. 0)\<rparr>"

text \<open>
  The example system after the simple blink program was assigned at time 5000 to its
  second LED, which is disabled; and that LED.
\<close>

definition example_paused_system :: System where
  "example_paused_system = snd (assign_program 0 1 PROGRAM_SIMPLE_BLINK 5000 example_system)"

definition example_paused_led :: LED where
  "example_paused_led =
     LED_default\<lparr>program_type := PROGRAM_SIMPLE_BLINK,
                 program_state := Some (initialize_default_state 5000 new_ProgramState)\<rparr>"



text \<open>
  A French crossing channel in the ON half: the program is assigned at 5000 and ticks at
  5010 (the ON phase begins) and 5400 (the lamp holds near full intensity, 4070 with the
  draw 0). The LED and its state after these ticks are spelled out.
\<close>

definition example_crossing_state :: ProgramState where
  "example_crossing_state =
     \<lparr>last_update = 5400, next_event = 0, active = True, start_time = 5000,
      current_intensity = 0,
      parameters = (\<lambda>k. None)(''phase_start_time'' := Some 5010, ''current_phase'' := Some 1)\<rparr>"

definition example_crossing_led :: LED where
  "example_crossing_led =
     LED_default\<lparr>enabled := True, brightness := 4070,
                 program_type := PROGRAM_FRENCH_CROSSING,
                 program_state := Some example_crossing_state\<rparr>"

definition example_crossing_system :: System where
  "example_crossing_system =
     update_french_crossing_program 0 0 5400
       (update_french_crossing_program 0 0 5010
          (snd (assign_program 0 0 PROGRAM_FRENCH_CROSSING 5000 example_system)))"

text \<open>
  A welding channel in a flash: on the example welding system, with the raw draws 990,
  40, 40, 200 and then 199, the tick at 6000 starts a flash of peak intensity 1000 and
  writes 1000 (jitter 0). The LED and its state after this tick are spelled out.
\<close>

fun example_draws :: "nat \<Rightarrow> nat" where
  "example_draws 0 = 990"
| "example_draws (Suc 0) = 40"
| "example_draws (Suc (Suc 0)) = 40"
| "example_draws (Suc (Suc (Suc 0))) = 200"
| "example_draws n = 199"

definition example_flash_system :: System where
  "example_flash_system =
     update_welding_program 0 0 6000 (example_welding_system\<lparr>random_source := example_draws\<rparr>)"

definition example_flash_state :: ProgramState where
  "example_flash_state =
     \<lparr>last_update = 6000, next_event = 6100, active = True, start_time = 6000,
      current_intensity = 1000, parameters = (\<lambda>k. None)\<rparr>"

definition example_flash_led :: LED where
  "example_flash_led =
     LED_default\<lparr>enabled := True, brightness := 1000, program_type := PROGRAM_WELDING,
                 program_state := Some example_flash_state\<rparr>"

text \<open>
  A welding flash of peak intensity 3000 in its fade, and a firebox whose ember pop began
  at 7000: two states on which the rounding of \<^verbatim>\<open>float\<close> shows in the duty written.
\<close>

definition example_fade_state :: ProgramState where
  "example_fade_state =
     \<lparr>last_update = 6030, next_event = 6100, active = True, start_time = 6000,
      current_intensity = 3000, parameters = (\<lambda>k. None)\<rparr>"

definition example_ember_state :: ProgramState where
  "example_ember_state =
     \<lparr>last_update = 7000, next_event = 7200, active = False, start_time = 5000,
      current_intensity = 2200,
      parameters = (\<lambda>k. None)(''effect_type'' := Some 1, ''effect_start_time'' := Some 7000)\<rparr>"

section \<open>Lemmas: the LED array and the hardware apply\<close>

lemma getLED_eq:
  "getLED w i j =
     (if i < length (modules w) \<and> j < length (leds (modules w ! i))
      then Some (leds (modules w ! i) ! j) else None)"
  by (simp add: getLED_def getModule_def module_getLED_def getLedCount_def)

lemma valid_location_getLED: "valid_location w m l \<longleftrightarrow> getLED w m l \<noteq> None"
  by (auto simp: valid_location_def getLED_eq getModuleCount_def getLedCount_def)

lemma valid_indices:
  "getLED w m l = Some led \<Longrightarrow>
     \<not> getModuleCount w \<le> m \<and> getModule w m = Some (modules w ! m)
     \<and> \<not> getLedCount (modules w ! m) \<le> l"
  by (auto simp: getLED_eq getModuleCount_def getModule_def getLedCount_def split: if_splits)

lemma getLED_setLED:
  "getLED (setLED i j led w) i' j' =
     (if i' = i \<and> j' = j \<and> getLED w i j \<noteq> None then Some led else getLED w i' j')"
  by (auto simp: getLED_eq setLED_def nth_list_update)

lemma random_source_setLED [simp]: "random_source (setLED m l led w) = random_source w"
  by (simp add: setLED_def)

lemma shape_setLED [simp]: "shape (setLED i j led w) = shape w"
  by (cases "i < length (modules w)")
     (auto simp: shape_def setLED_def getLedCount_def list_eq_iff_nth_eq nth_list_update)

lemma getLED_modLED:
  "getLED (modLED i j f w) i' j' =
     (if i' = i \<and> j' = j then map_option f (getLED w i j) else getLED w i' j')"
  by (auto simp: modLED_def getLED_setLED split: option.splits)

lemma shape_modLED [simp]: "shape (modLED i j f w) = shape w"
  by (simp add: modLED_def split: option.splits)

lemma getLED_setState:
  "getLED (setState i j st w) i' j' =
     (if i' = i \<and> j' = j
      then map_option (\<lambda>led. led\<lparr>program_state := Some st\<rparr>) (getLED w i j)
      else getLED w i' j')"
  by (simp add: setState_def getLED_modLED)

lemma shape_setState [simp]: "shape (setState i j st w) = shape w"
  by (simp add: setState_def)

lemma leds_module_apply [simp]: "leds (snd (module_applyLedBrightness j mo)) = leds mo"
  by (simp add: module_applyLedBrightness_def split: option.splits)

lemma getLED_apply [simp]: "getLED (snd (applyLedBrightness i j w)) i' j' = getLED w i' j'"
  by (auto simp: applyLedBrightness_def getModule_def getLED_eq nth_list_update split_beta)

lemma shape_apply [simp]: "shape (snd (applyLedBrightness i j w)) = shape w"
  by (cases "i < length (modules w)")
     (auto simp: applyLedBrightness_def getModule_def shape_def getLedCount_def split_beta
        list_eq_iff_nth_eq nth_list_update)

lemma getLED_write_and_apply:
  "getLED (write_and_apply i j b w) i' j' =
     (if i' = i \<and> j' = j then map_option (setBrightness b) (getLED w i j) else getLED w i' j')"
  by (simp add: write_and_apply_def getLED_modLED)

lemma shape_write_and_apply [simp]: "shape (write_and_apply i j b w) = shape w"
  by (simp add: write_and_apply_def)

lemma getLED_fold_write:
  "getLED (fold (write_and_apply i j) bs w) i' j' =
     (if i' = i \<and> j' = j then map_option (fold setBrightness bs) (getLED w i j)
      else getLED w i' j')"
  by (induction bs arbitrary: w)
     (auto simp: getLED_write_and_apply option.map_comp comp_def option.map_id)

lemma shape_fold_write [simp]: "shape (fold (write_and_apply i j) bs w) = shape w"
  by (induction bs arbitrary: w) auto

lemma getLED_random_source [simp]: "getLED (w\<lparr>random_source := rs\<rparr>) i j = getLED w i j"
  by (simp add: getLED_eq)

lemma shape_random_source [simp]: "shape (w\<lparr>random_source := rs\<rparr>) = shape w"
  by (simp add: shape_def)

lemma list_all_all_leds:
  "list_all P (all_leds w) \<longleftrightarrow> (\<forall>i j led. getLED w i j = Some led \<longrightarrow> P led)"
proof
  assume L: "list_all P (all_leds w)"
  show "\<forall>i j led. getLED w i j = Some led \<longrightarrow> P led"
  proof (intro allI impI)
    fix i j led assume "getLED w i j = Some led"
    then have "i < length (modules w)" "j < length (leds (modules w ! i))"
      "led = leds (modules w ! i) ! j"
      by (auto simp: getLED_eq split: if_splits)
    then have "led \<in> set (all_leds w)"
      by (auto simp: all_leds_def intro!: bexI [of _ "modules w ! i"])
    with L show "P led" by (simp add: list_all_iff)
  qed
next
  assume R: "\<forall>i j led. getLED w i j = Some led \<longrightarrow> P led"
  show "list_all P (all_leds w)"
    unfolding list_all_iff all_leds_def
  proof
    fix led assume "led \<in> set (concat (map leds (modules w)))"
    then obtain mo where "mo \<in> set (modules w)" "led \<in> set (leds mo)" by auto
    then obtain i j where "i < length (modules w)" "mo = modules w ! i"
      "j < length (leds mo)" "led = leds mo ! j"
      by (auto simp: in_set_conv_nth)
    then have "getLED w i j = Some led" by (simp add: getLED_eq)
    with R show "P led" by blast
  qed
qed

lemma setBrightness_fields [simp]:
  "program_type (setBrightness b led) = program_type led"
  "program_state (setBrightness b led) = program_state led"
  "enabled (setBrightness b led) = enabled led"
  "name (setBrightness b led) = name led"
  by (simp_all add: setBrightness_def)

lemma fold_setBrightness_fields [simp]:
  "program_type (fold setBrightness bs led) = program_type led"
  "program_state (fold setBrightness bs led) = program_state led"
  "enabled (fold setBrightness bs led) = enabled led"
  "name (fold setBrightness bs led) = name led"
  by (induction bs arbitrary: led) simp_all

lemma brightness_setBrightness:
  "brightness (setBrightness b led) = (if b > 4095 then 4095 else b)"
  by (simp add: setBrightness_def MAX_BRIGHTNESS_def)

lemma duty_ok_setBrightness [simp]: "duty_ok (setBrightness b led)"
  by (auto simp: duty_ok_def brightness_setBrightness not_less word_le_nat_alt)

lemma duty_ok_fold_setBrightness: "duty_ok led \<Longrightarrow> duty_ok (fold setBrightness bs led)"
  by (induction bs arbitrary: led) simp_all

lemma duty_ok_state_update [simp]: "duty_ok (led\<lparr>program_state := s\<rparr>) = duty_ok led"
  by (simp add: duty_ok_def)

lemma duty_inv_getLED: "duty_inv w \<longleftrightarrow> (\<forall>i j led. getLED w i j = Some led \<longrightarrow> duty_ok led)"
  by (simp add: duty_inv_def list_all_all_leds)

lemma kind_state_inv_getLED:
  "kind_state_inv w \<longleftrightarrow> (\<forall>i j led. getLED w i j = Some led \<longrightarrow> kind_state_ok led)"
  by (simp add: kind_state_inv_def list_all_all_leds)

section \<open>Lemmas: the shared skeleton of the effects\<close>

lemma getLED_run_effect:
  "getLED (run_effect tick i j w) i' j' =
     (if i' = i \<and> j' = j then
        (case getLED w i j of
           None \<Rightarrow> None
         | Some led \<Rightarrow>
             (case program_state led of
                None \<Rightarrow> Some led
              | Some st \<Rightarrow>
                  (case tick led st (random_source w) of
                     None \<Rightarrow> Some led
                   | Some (st', bs, rs') \<Rightarrow>
                       Some ((fold setBrightness bs led)\<lparr>program_state := Some st'\<rparr>))))
      else getLED w i' j')"
  by (auto simp: run_effect_def getLED_setState getLED_fold_write split: option.splits)

lemma shape_run_effect [simp]: "shape (run_effect tick i j w) = shape w"
  by (simp add: run_effect_def split: option.splits prod.splits)

lemma duty_inv_run_effect: "duty_inv w \<Longrightarrow> duty_inv (run_effect tick i j w)"
  unfolding duty_inv_getLED
  by (auto simp: getLED_run_effect duty_ok_fold_setBrightness split: if_splits option.splits)

lemma kind_state_inv_run_effect: "kind_state_inv w \<Longrightarrow> kind_state_inv (run_effect tick i j w)"
  unfolding kind_state_inv_getLED
  by (fastforce simp: getLED_run_effect kind_state_ok_def split: if_splits option.splits)

lemma pwm_ok_entry:
  fixes b :: uint16
  assumes "unat b \<le> 4095" "b \<noteq> 0" "b \<noteq> 4095"
  shows "0 < unat b \<and> unat b < 4095"
  using assms by unat_arith

lemma pwm_module_apply:
  assumes "list_all pwm_ok (setPWM_calls mo)"
    and "\<And>led. module_getLED mo j = Some led \<Longrightarrow> duty_ok led"
  shows "list_all pwm_ok (setPWM_calls (snd (module_applyLedBrightness j mo)))"
  using assms pwm_ok_entry
  by (auto simp: module_applyLedBrightness_def setPWM_calls_def pwm_ok_def duty_ok_def
      MAX_BRIGHTNESS_def split: option.splits)

lemma pwm_inv_setLED [simp]: "pwm_inv (setLED i j led w) = pwm_inv w"
proof (cases "i < length (modules w)")
  case True
  have "list_all P (xs[i := x]) = list_all P xs" if "P x = P (xs ! i)" "i < length xs"
    for P :: "PCA9685Module \<Rightarrow> bool" and xs x
    using that by (auto simp: list_all_length nth_list_update)
  then show ?thesis using True
    by (simp add: pwm_inv_def setLED_def setPWM_calls_def)
next
  case False
  then show ?thesis by (simp add: pwm_inv_def setLED_def list_update_beyond)
qed

lemma pwm_inv_modLED [simp]: "pwm_inv (modLED i j f w) = pwm_inv w"
  by (simp add: modLED_def split: option.splits)

lemma pwm_inv_setState [simp]: "pwm_inv (setState i j st w) = pwm_inv w"
  by (simp add: setState_def)

lemma pwm_inv_random_source [simp]: "pwm_inv (w\<lparr>random_source := rs\<rparr>) = pwm_inv w"
  by (simp add: pwm_inv_def)

lemma pwm_inv_apply:
  assumes "pwm_inv w" and "\<And>led. getLED w i j = Some led \<Longrightarrow> duty_ok led"
  shows "pwm_inv (snd (applyLedBrightness i j w))"
proof (cases "i < length (modules w)")
  case True
  have "list_all pwm_ok (setPWM_calls (snd (module_applyLedBrightness j (modules w ! i))))"
    using assms True
    by (intro pwm_module_apply) (auto simp: pwm_inv_def list_all_length getLED_def getModule_def)
  then show ?thesis using assms(1) True
    by (auto simp: applyLedBrightness_def getModule_def pwm_inv_def split_beta list_all_length
        nth_list_update)
next
  case False
  then show ?thesis using assms(1) by (simp add: applyLedBrightness_def getModule_def)
qed

lemma pwm_inv_write_and_apply: "pwm_inv w \<Longrightarrow> pwm_inv (write_and_apply i j b w)"
  unfolding write_and_apply_def
  by (rule pwm_inv_apply) (auto simp: getLED_modLED)

lemma fold_preserves:
  "Q w \<Longrightarrow> (\<And>x w'. x \<in> set xs \<Longrightarrow> Q w' \<Longrightarrow> Q (f x w')) \<Longrightarrow> Q (fold f xs w)"
  by (induction xs arbitrary: w) auto

lemma pwm_inv_run_effect: "pwm_inv w \<Longrightarrow> pwm_inv (run_effect tick i j w)"
  by (auto simp: run_effect_def split: option.splits
      intro!: fold_preserves [where Q = pwm_inv] pwm_inv_write_and_apply)

section \<open>Lemmas: the update loops\<close>

lemmas update_program_defs =
  update_welding_program_def update_heartbeat_program_def update_breathing_program_def
  update_simple_blink_program_def update_tv_flicker_program_def update_firebox_glow_program_def
  update_candle_flicker_program_def update_french_crossing_program_def

lemma update_led_cases:
  "update_led now i j w = w \<or> (\<exists>tick. update_led now i j w = run_effect tick i j w)"
  by (auto simp: update_led_def update_program_defs split: option.splits ProgramType.splits)

lemma update_led_skip:
  "getLED w i j = Some led \<Longrightarrow> \<not> enabled led \<or> program_type led = PROGRAM_NONE
     \<Longrightarrow> update_led now i j w = w"
  by (auto simp: update_led_def)

lemma getLED_update_led_other:
  "\<not> (i' = i \<and> j' = j) \<Longrightarrow> getLED (update_led now i j w) i' j' = getLED w i' j'"
  using update_led_cases [of now i j w] by (auto simp: getLED_run_effect)

lemma shape_update_led [simp]: "shape (update_led now i j w) = shape w"
  using update_led_cases [of now i j w] by auto

lemma update_preserves:
  assumes "Q w" and "\<And>i j w'. Q w' \<Longrightarrow> Q (update_led now i j w')"
  shows "Q (update now w)"
proof -
  have "Q (update_module now i w')" if "Q w'" for i w'
    using that assms(2) by (auto simp: update_module_def intro: fold_preserves split: option.splits)
  with assms(1) show ?thesis
    by (auto simp: update_def intro: fold_preserves)
qed

lemma shape_update [simp]: "shape (update now w) = shape w"
  by (rule update_preserves [where Q = "\<lambda>w'. shape w' = shape w"]) auto

lemma upt_split: "l < n \<Longrightarrow> [0..<n] = [0..<l] @ l # [Suc l..<n]"
  by (metis le_add2 le_add_same_cancel2 less_imp_add_positive upt_add_eq_append upt_conv_Cons)

lemma update_module_at:
  assumes "getLED w m l = Some led"
    and "\<And>w'. getLED w' m l = Some led \<Longrightarrow> getLED (update_led now m l w') m l = Some led'"
  shows "getLED (update_module now m w) m l = Some led'"
proof -
  from assms(1) obtain mo where mo: "getModule w m = Some mo" and l: "l < getLedCount mo"
    by (auto simp: getLED_def module_getLED_def split: option.splits if_splits)
  have before: "getLED (fold (update_led now m) [0..<l] w) m l = Some led"
    by (rule fold_preserves [where Q = "\<lambda>w'. getLED w' m l = Some led"])
       (auto simp: assms(1) getLED_update_led_other)
  have at: "getLED (update_led now m l (fold (update_led now m) [0..<l] w)) m l = Some led'"
    by (rule assms(2) [OF before])
  have "getLED (fold (update_led now m) [Suc l..<getLedCount mo]
          (update_led now m l (fold (update_led now m) [0..<l] w))) m l = Some led'"
    by (rule fold_preserves [where Q = "\<lambda>w'. getLED w' m l = Some led'"])
       (auto simp: at getLED_update_led_other)
  then show ?thesis
    by (simp add: update_module_def mo upt_split [OF l])
qed

lemma getLED_update_module_other:
  assumes "i \<noteq> m"
  shows "getLED (update_module now i w) m l = getLED w m l"
proof -
  have "getLED (fold (update_led now i) js w) m l = getLED w m l" for js
    using assms
    by (intro fold_preserves [where Q = "\<lambda>w'. getLED w' m l = getLED w m l"])
       (auto simp: getLED_update_led_other)
  then show ?thesis
    by (simp add: update_module_def split: option.splits)
qed

lemma update_at:
  assumes "getLED w m l = Some led"
    and "\<And>w'. getLED w' m l = Some led \<Longrightarrow> getLED (update_led now m l w') m l = Some led'"
  shows "getLED (update now w) m l = Some led'"
proof -
  from assms(1) have m: "m < getModuleCount w"
    by (auto simp: getLED_eq getModuleCount_def split: if_splits)
  have before: "getLED (fold (update_module now) [0..<m] w) m l = Some led"
    by (rule fold_preserves [where Q = "\<lambda>w'. getLED w' m l = Some led"])
       (auto simp: assms(1) getLED_update_module_other)
  have at: "getLED (update_module now m (fold (update_module now) [0..<m] w)) m l = Some led'"
    by (rule update_module_at [OF before assms(2)])
  have "getLED (fold (update_module now) [Suc m..<getModuleCount w]
          (update_module now m (fold (update_module now) [0..<m] w))) m l = Some led'"
    by (rule fold_preserves [where Q = "\<lambda>w'. getLED w' m l = Some led'"])
       (auto simp: at getLED_update_module_other)
  then show ?thesis
    by (simp add: update_def upt_split [OF m])
qed

lemma duty_inv_update_led: "duty_inv w \<Longrightarrow> duty_inv (update_led now i j w)"
  using update_led_cases [of now i j w] by (auto simp: duty_inv_run_effect)

lemma pwm_inv_update_led: "pwm_inv w \<Longrightarrow> pwm_inv (update_led now i j w)"
  using update_led_cases [of now i j w] by (auto simp: pwm_inv_run_effect)

lemma kind_state_inv_update_led: "kind_state_inv w \<Longrightarrow> kind_state_inv (update_led now i j w)"
  using update_led_cases [of now i j w] by (auto simp: kind_state_inv_run_effect)

section \<open>Lemmas: assignment\<close>

lemma unassign_invalid: "\<not> valid_location w m l \<Longrightarrow> unassign_program m l w = (False, w)"
  by (auto simp: valid_location_def unassign_program_def getModule_def getModuleCount_def
      split: option.splits)

lemma assign_invalid: "\<not> valid_location w m l \<Longrightarrow> assign_program m l pt t w = (False, w)"
  by (auto simp: valid_location_def assign_program_def getModule_def getModuleCount_def
      split: option.splits)

lemma getLED_unassign:
  "getLED (snd (unassign_program m l w)) i j =
     (if i = m \<and> j = l
      then map_option (\<lambda>led. led\<lparr>program_type := PROGRAM_NONE, program_state := None\<rparr>)
             (getLED w m l)
      else getLED w i j)"
proof (cases "getLED w m l")
  case None
  then have "\<not> valid_location w m l" by (simp add: valid_location_getLED)
  then show ?thesis using None by (auto simp: unassign_invalid)
next
  case (Some led)
  have "led\<lparr>program_type := PROGRAM_NONE\<rparr>
          = led\<lparr>program_state := None, program_type := PROGRAM_NONE\<rparr>"
    if "program_state led = None"
    using that by (cases led) simp
  then show ?thesis
    using Some valid_indices [OF Some]
    by (auto simp: unassign_program_def setProgram_def getLED_setLED)
qed

lemma getLED_initialize_led_state:
  assumes "getLED w m l = Some led" and "program_state led = Some st"
    and "program_type led \<noteq> PROGRAM_NONE"
  shows "getLED (snd (initialize_led_state m l t w)) i j =
     (if i = m \<and> j = l
      then Some (led\<lparr>program_state := Some (fst
             (if program_type led = PROGRAM_WELDING
              then initialize_welding_state t st (random_source w)
              else (initialize_default_state t st, random_source w)))\<rparr>)
      else getLED w i j)"
  using assms valid_indices [OF assms(1)]
  by (cases "program_type led")
     (simp_all add: initialize_led_state_def getLED_setState split_beta)

lemma getLED_assign:
  assumes "getLED w m l = Some led" and "pt \<noteq> PROGRAM_NONE"
  shows "getLED (snd (assign_program m l pt t w)) i j =
     (if i = m \<and> j = l
      then Some (led\<lparr>program_type := pt,
                     program_state := Some (fst (initial_state pt t (random_source w)))\<rparr>)
      else getLED w i j)"
proof -
  let ?led1 = "setProgram pt (Some new_ProgramState) led"
  let ?w1 = "setLED m l ?led1 w"
  have g1: "getLED ?w1 m l = Some ?led1"
    using assms(1) by (simp add: getLED_setLED)
  have "getLED (snd (initialize_led_state m l t ?w1)) i j =
     (if i = m \<and> j = l
      then Some (led\<lparr>program_type := pt,
                     program_state := Some (fst (initial_state pt t (random_source w)))\<rparr>)
      else getLED w i j)"
    using assms
    by (subst getLED_initialize_led_state [OF g1, of new_ProgramState])
       (auto simp: setProgram_def initial_state_def getLED_setLED)
  then show ?thesis
    using assms valid_indices [OF assms(1)]
    by (simp add: assign_program_def split_beta)
qed

lemma kind_state_inv_unassign: "kind_state_inv w \<Longrightarrow> kind_state_inv (snd (unassign_program m l w))"
  unfolding kind_state_inv_getLED
  by (auto simp: getLED_unassign kind_state_ok_def split: if_splits)

lemma kind_state_inv_assign:
  assumes "kind_state_inv w"
  shows "kind_state_inv (snd (assign_program m l pt t w))"
proof (cases "getLED w m l")
  case None
  then have "\<not> valid_location w m l" by (simp add: valid_location_getLED)
  then show ?thesis using assms by (simp add: assign_invalid)
next
  case (Some led)
  show ?thesis
  proof (cases "pt = PROGRAM_NONE")
    case True
    have "assign_program m l PROGRAM_NONE t w = unassign_program m l w"
      by (auto simp: assign_program_def unassign_program_def split: option.splits)
    then show ?thesis using True assms by (simp add: kind_state_inv_unassign)
  next
    case False
    show ?thesis
      using assms False unfolding kind_state_inv_getLED
      by (auto simp: getLED_assign [OF Some False] kind_state_ok_def split: if_splits)
  qed
qed

section \<open>Lemmas: single ticks of the cycle-based effects\<close>

lemma getLED_update_led_run:
  assumes "getLED w i j = Some led" "enabled led" "program_state led = Some st"
  shows "program_type led = PROGRAM_HEARTBEAT \<Longrightarrow>
           update_led now i j w = run_effect (heartbeat_tick now) i j w"
    and "program_type led = PROGRAM_SIMPLE_BLINK \<Longrightarrow>
           update_led now i j w = run_effect (simple_blink_tick now) i j w"
  using assms by (simp_all add: update_led_def update_program_defs)

lemma word_mod_small: "(d :: millis) < n \<Longrightarrow> d mod n = d"
  by (simp add: word_mod_less_divisor mod_word_less)

lemma simple_blink_step:
  assumes led: "getLED w m l = Some led" "enabled led" "program_type led = PROGRAM_SIMPLE_BLINK"
      "program_state led = Some st"
    and st: "start_time st \<noteq> 0" "\<not> throttled 50 now st"
  shows "getLED (update now w) m l =
     Some (led\<lparr>brightness := (if (now - start_time st) mod 2000 < 1000 then 4095 else 0),
               program_state := Some (st\<lparr>last_update := now\<rparr>)\<rparr>)"
proof (rule update_at [OF led(1)])
  fix w' assume g: "getLED w' m l = Some led"
  show "getLED (update_led now m l w') m l =
     Some (led\<lparr>brightness := (if (now - start_time st) mod 2000 < 1000 then 4095 else 0),
               program_state := Some (st\<lparr>last_update := now\<rparr>)\<rparr>)"
    using led st g
    by (simp add: getLED_update_led_run(2) [OF g led(2) led(4) led(3)] getLED_run_effect
        simple_blink_tick_def throttled_def setBrightness_def MAX_BRIGHTNESS_def)
qed





lemma blink_after_assign:
  assumes "getLED w0 m l = Some led0" and "enabled led0" and "t \<noteq> 0" and "\<not> t + d < 50"
  shows "getLED (update (t + d) (snd (assign_program m l PROGRAM_SIMPLE_BLINK t w0))) m l =
     Some (led0\<lparr>program_type := PROGRAM_SIMPLE_BLINK,
                brightness := (if d mod 2000 < 1000 then 4095 else 0),
                program_state := Some ((initialize_default_state t new_ProgramState)
                                         \<lparr>last_update := t + d\<rparr>)\<rparr>)"
proof -
  let ?st = "initialize_default_state t new_ProgramState"
  let ?led = "led0\<lparr>program_type := PROGRAM_SIMPLE_BLINK, program_state := Some ?st\<rparr>"
  let ?w = "snd (assign_program m l PROGRAM_SIMPLE_BLINK t w0)"
  have g: "getLED ?w m l = Some ?led"
    using getLED_assign [OF assms(1), of PROGRAM_SIMPLE_BLINK t m l]
    by (simp add: initial_state_def)
  have "getLED (update (t + d) ?w) m l =
     Some (?led\<lparr>brightness := (if (t + d - start_time ?st) mod 2000 < 1000 then 4095 else 0),
               program_state := Some (?st\<lparr>last_update := t + d\<rparr>)\<rparr>)"
    using assms
    by (intro simple_blink_step [OF g])
       (simp_all add: initialize_default_state_def throttled_def)
  then show ?thesis
    by (simp add: initialize_default_state_def)
qed

section \<open>Lemmas: what a tick writes and applies\<close>

lemma length_apply_trace [simp]: "length (apply_trace j led bs) = length bs"
  by (induction bs arbitrary: led) auto

lemma apply_trace_Nil [simp]: "apply_trace j led bs = [] \<longleftrightarrow> bs = []"
  by (cases bs) auto

lemma last_apply_trace:
  "bs \<noteq> [] \<Longrightarrow> last (apply_trace j led bs) = setPWM_call_for j (fold setBrightness bs led)"
  by (induction bs arbitrary: led) auto

lemma setPWM_call_for_state [simp]:
  "setPWM_call_for j (led\<lparr>program_state := s\<rparr>) = setPWM_call_for j led"
  by (simp add: setPWM_call_for_def)

lemma hardware_ready_calls:
  "hardware_ready w i \<Longrightarrow> driver (modules w ! i) = Some (setPWM_calls (modules w ! i))"
  by (auto simp: hardware_ready_def setPWM_calls_def)

lemma calls_setLED [simp]:
  "setPWM_calls (modules (setLED i j led w) ! i') = setPWM_calls (modules w ! i')"
  by (cases "i < length (modules w)")
     (auto simp: setLED_def setPWM_calls_def nth_list_update list_update_beyond)

lemma hardware_ready_setLED [simp]: "hardware_ready (setLED i j led w) i' = hardware_ready w i'"
  by (cases "i < length (modules w)")
     (auto simp: setLED_def hardware_ready_def getModuleCount_def nth_list_update
        list_update_beyond)

lemma calls_modLED [simp]:
  "setPWM_calls (modules (modLED i j f w) ! i') = setPWM_calls (modules w ! i')"
  by (simp add: modLED_def split: option.splits)

lemma hardware_ready_modLED [simp]: "hardware_ready (modLED i j f w) i' = hardware_ready w i'"
  by (simp add: modLED_def split: option.splits)

lemma calls_write_and_apply:
  assumes "hardware_ready w i" and "getLED w i j = Some led"
  shows "setPWM_calls (modules (write_and_apply i j b w) ! i)
           = setPWM_calls (modules w ! i) @ [setPWM_call_for j (setBrightness b led)]"
    and "hardware_ready (write_and_apply i j b w) i"
proof -
  let ?w1 = "modLED i j (setBrightness b) w"
  have r: "hardware_ready ?w1 i" using assms(1) by simp
  have g: "getLED ?w1 i j = Some (setBrightness b led)"
    using assms(2) by (simp add: getLED_modLED)
  from g have idx: "i < length (modules ?w1)" "j < length (leds (modules ?w1 ! i))"
    "leds (modules ?w1 ! i) ! j = setBrightness b led"
    by (auto simp: getLED_eq split: if_splits)
  obtain cs where cs: "driver (modules ?w1 ! i) = Some cs" "initialized (modules ?w1 ! i)"
    using r by (auto simp: hardware_ready_def)
  have c1: "setPWM_calls (modules ?w1 ! i) = cs"
    using cs by (simp add: setPWM_calls_def)
  have "setPWM_calls (modules (snd (applyLedBrightness i j ?w1)) ! i)
          = cs @ [setPWM_call_for j (setBrightness b led)]"
    using idx cs
    by (simp add: applyLedBrightness_def getModule_def module_applyLedBrightness_def
        module_getLED_def getLedCount_def setPWM_calls_def setPWM_call_for_def split_beta)
  moreover have "setPWM_calls (modules ?w1 ! i) = setPWM_calls (modules w ! i)" by simp
  ultimately show "setPWM_calls (modules (write_and_apply i j b w) ! i)
           = setPWM_calls (modules w ! i) @ [setPWM_call_for j (setBrightness b led)]"
    using c1 by (simp add: write_and_apply_def)
  show "hardware_ready (write_and_apply i j b w) i"
    using idx cs
    by (simp add: write_and_apply_def hardware_ready_def applyLedBrightness_def getModule_def
        module_applyLedBrightness_def module_getLED_def getLedCount_def getModuleCount_def
        split_beta)
qed

lemma calls_fold_write:
  assumes "hardware_ready w i" and "getLED w i j = Some led"
  shows "setPWM_calls (modules (fold (write_and_apply i j) bs w) ! i)
           = setPWM_calls (modules w ! i) @ apply_trace j led bs"
  using assms
proof (induction bs arbitrary: w led)
  case Nil
  then show ?case by simp
next
  case (Cons b bs)
  have g: "getLED (write_and_apply i j b w) i j = Some (setBrightness b led)"
    using Cons.prems(2) by (simp add: getLED_write_and_apply)
  show ?case
    using Cons.IH [OF calls_write_and_apply(2) [OF Cons.prems] g]
      calls_write_and_apply(1) [OF Cons.prems]
    by simp
qed

lemma calls_setState [simp]:
  "setPWM_calls (modules (setState i j st w) ! i') = setPWM_calls (modules w ! i')"
  by (simp add: setState_def)

lemma calls_random_source [simp]:
  "setPWM_calls (modules (w\<lparr>random_source := rs\<rparr>) ! i) = setPWM_calls (modules w ! i)"
  by simp

lemma hardware_ready_random_source [simp]:
  "hardware_ready (w\<lparr>random_source := rs\<rparr>) i = hardware_ready w i"
  by (simp add: hardware_ready_def getModuleCount_def)

lemma calls_write_and_apply_not_ready:
  assumes "\<not> hardware_ready w i"
  shows "setPWM_calls (modules (write_and_apply i j b w) ! i) = setPWM_calls (modules w ! i)"
    and "\<not> hardware_ready (write_and_apply i j b w) i"
proof -
  let ?w1 = "modLED i j (setBrightness b) w"
  have r: "\<not> hardware_ready ?w1 i" using assms by simp
  have c: "setPWM_calls (modules ?w1 ! i) = setPWM_calls (modules w ! i)" by simp
  have "setPWM_calls (modules (snd (applyLedBrightness i j ?w1)) ! i) = setPWM_calls (modules ?w1 ! i)
        \<and> \<not> hardware_ready (snd (applyLedBrightness i j ?w1)) i"
    using r
    by (auto simp: applyLedBrightness_def getModule_def module_applyLedBrightness_def
        hardware_ready_def getModuleCount_def setPWM_calls_def split_beta
        split: option.splits)
  then show "setPWM_calls (modules (write_and_apply i j b w) ! i) = setPWM_calls (modules w ! i)"
    and "\<not> hardware_ready (write_and_apply i j b w) i"
    using c by (simp_all add: write_and_apply_def)
qed

lemma calls_fold_write_not_ready:
  assumes "\<not> hardware_ready w i"
  shows "setPWM_calls (modules (fold (write_and_apply i j) bs w) ! i) = setPWM_calls (modules w ! i)"
  using assms
proof (induction bs arbitrary: w)
  case Nil
  then show ?case by simp
next
  case (Cons b bs)
  show ?case
    using Cons.IH [OF calls_write_and_apply_not_ready(2) [OF Cons.prems]]
      calls_write_and_apply_not_ready(1) [OF Cons.prems]
    by simp
qed

lemma run_effect_outcome:
  assumes "getLED w i j = Some led" and "program_state led = Some st"
    and "tick led st (random_source w) = Some (st', bs, rs')"
    and "last_update st' = now"
  shows "tick_outcome now i j w (run_effect tick i j w) bs"
proof -
  let ?w' = "run_effect tick i j w"
  have g: "getLED ?w' i j = Some ((fold setBrightness bs led)\<lparr>program_state := Some st'\<rparr>)"
    using assms by (simp add: getLED_run_effect)
  have c: "setPWM_calls (modules ?w' ! i)
             = setPWM_calls (modules w ! i)
                 @ (if hardware_ready w i then apply_trace j led bs else [])"
  proof (cases "hardware_ready w i")
    case True
    then show ?thesis
      using assms calls_fold_write [of "w\<lparr>random_source := rs'\<rparr>" i j led bs]
      by (simp add: run_effect_def)
  next
    case False
    then show ?thesis
      using assms calls_fold_write_not_ready [of "w\<lparr>random_source := rs'\<rparr>" i j bs]
      by (simp add: run_effect_def)
  qed
  show ?thesis
    using assms(1,4) g c by (simp add: tick_outcome_def)
qed

lemma heartbeat_tick_shape:
  "\<not> throttled 20 now st \<Longrightarrow>
     \<exists>st' b rs'. heartbeat_tick now led st rs = Some (st', [b], rs') \<and> last_update st' = now"
  by (simp add: heartbeat_tick_def throttled_def Let_def)

lemma breathing_tick_shape:
  "\<not> throttled 20 now st \<Longrightarrow>
     \<exists>st' b rs'. breathing_tick now led st rs = Some (st', [b], rs') \<and> last_update st' = now"
  by (simp add: breathing_tick_def throttled_def Let_def)

lemma simple_blink_tick_shape:
  "\<not> throttled 50 now st \<Longrightarrow>
     \<exists>st' b rs'. simple_blink_tick now led st rs = Some (st', [b], rs') \<and> last_update st' = now"
  by (simp add: simple_blink_tick_def throttled_def Let_def)

lemma firebox_glow_tick_shape:
  "\<not> throttled 20 now st \<Longrightarrow>
     \<exists>st' b rs'. firebox_glow_tick now led st rs = Some (st', [b], rs') \<and> last_update st' = now"
  by (simp add: firebox_glow_tick_def throttled_def Let_def split_beta
      split del: if_split cong: if_cong)

lemma candle_flicker_tick_shape:
  "\<not> throttled 25 now st \<Longrightarrow>
     \<exists>st' b rs'. candle_flicker_tick now led st rs = Some (st', [b], rs') \<and> last_update st' = now"
  by (simp add: candle_flicker_tick_def throttled_def Let_def split_beta
      split del: if_split cong: if_cong)

lemma french_crossing_tick_shape:
  "\<not> throttled 10 now st \<Longrightarrow>
     \<exists>st' b rs'. french_crossing_tick now led st rs = Some (st', [b], rs') \<and> last_update st' = now"
  by (simp add: french_crossing_tick_def throttled_def Let_def split_beta
      split del: if_split cong: if_cong)

lemma welding_tick_shape:
  "\<not> throttled 10 now st \<Longrightarrow>
     \<exists>st' bs rs'. welding_tick now led st rs = Some (st', bs, rs') \<and> last_update st' = now
       \<and> length bs = (if active st then 1 else if next_event st \<le> now then 2 else 0)"
  by (simp add: welding_tick_def throttled_def Let_def split_beta)

lemma tv_flicker_tick_shape:
  "\<not> throttled 20 now st \<Longrightarrow>
     \<exists>st' bs rs'. tv_flicker_tick now led st rs = Some (st', bs, rs') \<and> last_update st' = now
       \<and> length bs = (if \<not> active st \<or> next_event st \<le> now then 1 else 0)"
  by (simp add: tv_flicker_tick_def throttled_def Let_def split_beta)


lemma example_welding_system_assigned:
  "snd (assign_program 0 0 PROGRAM_WELDING 5000 example_system) = example_welding_system"
  by (simp add: assign_program_def initialize_led_state_def initialize_welding_state_def
      random_range_def example_system_def example_welding_system_def example_welding_led_def
      getModuleCount_def getModule_def getLedCount_def getLED_eq setLED_def setState_def
      modLED_def setProgram_def new_ProgramState_def LED_default_def)

lemma float32_0 [simp]: "float32 0 = 0"
  by (simp add: float32_def)

lemma truncate_0 [simp]: "truncate 0 = 0"
  by (simp add: truncate_def)

lemma to_uint16_0 [simp]: "to_uint16 0 = 0"
  by (simp add: to_uint16_def)

lemma french_crossing_tick_off:
  assumes "start_time st \<noteq> 0" and "\<not> throttled 10 now st"
    and "500 \<le> (now - start_time st) mod 1000"
  shows "\<exists>st' rs'. french_crossing_tick now led st rs = Some (st', [0], rs')"
  using assms
  by (simp add: french_crossing_tick_def throttled_def Let_def split_beta not_less [symmetric])

lemma uint_negative_draw:
  assumes "- 200 \<le> r" and "r < 0"
  shows "uint (word_of_int r :: uint16) = r + 65536"
proof -
  have "uint (word_of_int r :: uint16) = r mod 65536"
    by (simp add: uint_word_of_int)
  also have "\<dots> = (r + 65536) mod 65536"
    by simp
  also have "\<dots> = r + 65536"
    using assms by (intro mod_pos_pos_trivial) simp_all
  finally show ?thesis .
qed

lemma welding_tick_negative_jitter:
  assumes "active st" and "\<not> throttled 10 now st" and "unat (now - start_time st) \<le> 38"
    and "rs 0 mod 401 < 200"
  shows "\<exists>st' rs'. welding_tick now led st rs = Some (st', [4095], rs')"
proof -
  define r where "r = - 200 + int (rs 0 mod 401)"
  have r: "- 200 \<le> r" "r < 0" using assms(4) by (simp_all add: r_def)
  have rr: "random_range (- 200) 201 rs = (r, \<lambda>n. rs (Suc n))"
    by (simp add: random_range_def r_def)
  have "4095 < uint (current_intensity st) + uint (to_uint16 r)"
    unfolding to_uint16_def uint_negative_draw [OF r]
    using r uint_ge_0 [of "current_intensity st"] by linarith
  then have "constrain (uint (current_intensity st) + uint (to_uint16 r)) 0 4095 = 4095"
    by (simp add: constrain_def)
  then have c: "to_uint16 (constrain (uint (current_intensity st) + uint (to_uint16 r)) 0 4095)
                  = 4095"
    by (simp add: to_uint16_def)
  have "real (unat (now - start_time st)) \<le> real 38"
    using assms(3) by (intro of_nat_mono)
  then have e: "real (unat (now - start_time st)) < 55 * 0.7"
    by simp
  show ?thesis
    using assms(1,2) e
    by (simp add: welding_tick_def throttled_def Let_def rr c)
qed

section \<open>Lemmas: the example traces\<close>

lemma random_source_modLED [simp]: "random_source (modLED i j f w) = random_source w"
  by (simp add: modLED_def split: option.splits)

lemma random_source_setState [simp]: "random_source (setState i j st w) = random_source w"
  by (simp add: setState_def)

lemma random_source_write_and_apply [simp]:
  "random_source (write_and_apply i j b w) = random_source w"
  by (simp add: write_and_apply_def applyLedBrightness_def split_beta split: option.splits)

lemma random_source_fold_write [simp]:
  "random_source (fold (write_and_apply i j) bs w) = random_source w"
  by (induction bs arbitrary: w) auto

lemma random_source_run_effect:
  assumes "getLED w i j = Some led" and "program_state led = Some st"
    and "tick led st (random_source w) = Some (st', bs, rs')"
  shows "random_source (run_effect tick i j w) = rs'"
  using assms by (simp add: run_effect_def)

lemma random_source_initialize_led_state:
  assumes "getLED w m l = Some led" and "program_state led = Some st"
    and "program_type led \<noteq> PROGRAM_NONE"
  shows "random_source (snd (initialize_led_state m l t w)) =
     snd (if program_type led = PROGRAM_WELDING
          then initialize_welding_state t st (random_source w)
          else (initialize_default_state t st, random_source w))"
  using assms valid_indices [OF assms(1)]
  by (cases "program_type led") (simp_all add: initialize_led_state_def split_beta)

lemma random_source_assign:
  assumes "getLED w m l = Some led" and "pt \<noteq> PROGRAM_NONE"
  shows "random_source (snd (assign_program m l pt t w))
           = snd (initial_state pt t (random_source w))"
proof -
  let ?led1 = "setProgram pt (Some new_ProgramState) led"
  let ?w1 = "setLED m l ?led1 w"
  have g1: "getLED ?w1 m l = Some ?led1"
    using assms(1) by (simp add: getLED_setLED)
  have "random_source (snd (initialize_led_state m l t ?w1))
          = snd (initial_state pt t (random_source w))"
    using assms
    by (subst random_source_initialize_led_state [OF g1, of new_ProgramState])
       (auto simp: setProgram_def initial_state_def)
  then show ?thesis
    using assms valid_indices [OF assms(1)]
    by (simp add: assign_program_def split_beta)
qed

lemma example_crossing_led_reached:
  "getLED example_crossing_system 0 0 = Some example_crossing_led"
proof -
  let ?w0 = "snd (assign_program 0 0 PROGRAM_FRENCH_CROSSING 5000 example_system)"
  define st0 where "st0 = initialize_default_state 5000 new_ProgramState"
  define st1 where "st1 = json_set ''current_phase'' 1 (json_set ''phase_start_time'' 5010 st0)
                            \<lparr>last_update := 5010\<rparr>"
  let ?led0 = "LED_default\<lparr>enabled := True, program_type := PROGRAM_FRENCH_CROSSING,
                 program_state := Some st0\<rparr>"
  have g: "getLED example_system 0 0 = Some (LED_default\<lparr>enabled := True\<rparr>)"
    by (simp add: getLED_eq example_system_def)
  have g0: "getLED ?w0 0 0 = Some ?led0"
    using getLED_assign [OF g, of PROGRAM_FRENCH_CROSSING 5000 0 0]
    by (simp add: initial_state_def st0_def)
  have r0: "random_source ?w0 = (\<lambda>n. 0)"
    using random_source_assign [OF g, of PROGRAM_FRENCH_CROSSING 5000]
    by (simp add: initial_state_def) (simp add: example_system_def)
  have t1: "french_crossing_tick 5010 led st0 (\<lambda>n. 0) = Some (st1, [0], \<lambda>n. 0)" for led
    by (simp add: french_crossing_tick_def initialize_default_state_def new_ProgramState_def
        json_set_def json_uint8_def json_ulong_def Let_def st0_def st1_def)
  let ?w1 = "update_french_crossing_program 0 0 5010 ?w0"
  let ?led1 = "?led0\<lparr>brightness := 0, program_state := Some st1\<rparr>"
  have g1: "getLED ?w1 0 0 = Some ?led1"
    by (simp add: update_french_crossing_program_def getLED_run_effect g0 r0 t1
        setBrightness_def MAX_BRIGHTNESS_def)
  have r1: "random_source ?w1 = (\<lambda>n. 0)"
    by (simp add: update_french_crossing_program_def run_effect_def g0 r0 t1)
  have t2: "french_crossing_tick 5400 led st1 (\<lambda>n. 0)
              = Some (example_crossing_state, [4070], \<lambda>n. 0)" for led
    by (simp add: french_crossing_tick_def initialize_default_state_def new_ProgramState_def
        json_set_def json_uint8_def json_ulong_def Let_def random_range_def to_int16_def
        to_uint16_def constrain_def example_crossing_state_def st0_def st1_def)
  have "getLED (update_french_crossing_program 0 0 5400 ?w1) 0 0
          = Some (?led1\<lparr>brightness := 4070, program_state := Some example_crossing_state\<rparr>)"
    by (simp add: update_french_crossing_program_def [of 0 0 5400] getLED_run_effect g1 r1 t2
        setBrightness_def MAX_BRIGHTNESS_def)
  then show ?thesis
    by (simp add: example_crossing_system_def example_crossing_led_def)
qed

lemma example_flash_reached:
  "getLED example_flash_system 0 0 = Some example_flash_led"
  "random_source example_flash_system 0 = 199"
proof -
  let ?w0 = "example_welding_system\<lparr>random_source := example_draws\<rparr>"
  define st0 where "st0 = new_ProgramState\<lparr>next_event := 6000\<rparr>"
  have g0: "getLED example_welding_system 0 0 = Some example_welding_led"
    by (simp add: getLED_eq example_welding_system_def)
  have p0: "program_state example_welding_led = Some st0"
    by (simp add: example_welding_led_def st0_def)
  have t: "welding_tick 6000 led st0 example_draws
             = Some (example_flash_state, [1000, 1000],
                     \<lambda>n. example_draws (Suc (Suc (Suc (Suc n)))))" for led
    by (simp add: welding_tick_def st0_def new_ProgramState_def random_range_def Let_def
        to_uint16_def constrain_def example_flash_state_def)
  have "getLED example_flash_system 0 0
          = Some ((fold setBrightness [1000, 1000] example_welding_led)
                    \<lparr>program_state := Some example_flash_state\<rparr>)"
    by (simp add: example_flash_system_def update_welding_program_def getLED_run_effect g0 p0 t)
  then show "getLED example_flash_system 0 0 = Some example_flash_led"
    by (simp add: setBrightness_def MAX_BRIGHTNESS_def example_flash_led_def
        example_welding_led_def)
  have "random_source example_flash_system = (\<lambda>n. example_draws (Suc (Suc (Suc (Suc n)))))"
    by (simp add: example_flash_system_def update_welding_program_def run_effect_def g0 p0 t)
  then show "random_source example_flash_system 0 = 199"
    by simp
qed

text \<open>
  The rounding of \<^verbatim>\<open>float\<close> in two ticks. In the fade of the welding flash, 44 ms after
  its start, \<^verbatim>\<open>fade_progress\<close> is the \<^verbatim>\<open>float\<close> nearest to \<open>1 / 3\<close>, which is above
  \<open>1 / 3\<close>: the duty written is 1999, not 2000. In the ember pop of the firebox, 30 ms
  after its start, \<^verbatim>\<open>progress\<close> is the \<^verbatim>\<open>float\<close> nearest to \<open>1 / 5\<close>, which is above
  \<open>0.2\<close>: the decay branch is taken and the duty written is 3999, not 4000.
\<close>

lemma float32_third: "float32 (1 / 3) = 11184811 / 33554432"
  by (simp add: float32_def exponent2_def pow2_def round_half_even_def compute_bitlen Let_def)

lemma float32_fifth: "float32 (1 / 5) = 13421773 / 67108864"
  by (simp add: float32_def exponent2_def pow2_def round_half_even_def compute_bitlen Let_def)

lemma float32_halves: "float32 (11 / 2) = 11 / 2" "float32 30 = 30"
  by (simp_all add: float32_def exponent2_def pow2_def round_half_even_def compute_bitlen Let_def)

lemma welding_fade_example:
  "welding_tick 6044 led example_fade_state rs
     = Some (example_fade_state\<lparr>last_update := 6044\<rparr>, [1999], rs)"
  by (simp add: welding_tick_def example_fade_state_def Let_def float32_halves float32_third
      truncate_def to_uint16_def)

lemma firebox_ember_example:
  "rs 0 = 100 \<Longrightarrow> firebox_glow_tick 7030 led example_ember_state rs
     = Some (example_ember_state\<lparr>last_update := 7030\<rparr>, [3999], \<lambda>n. rs (Suc n))"
  by (simp add: firebox_glow_tick_def example_ember_state_def Let_def float32_halves float32_fifth
      truncate_def to_uint16_def to_int16_def json_uint8_def json_ulong_def json_set_def
      random_range_def constrain_def)

section \<open>The claims\<close>

text \<open>
  C1. The duty invariant. In a system where every stored duty is at most 4095 and every
  \<^verbatim>\<open>setPWM\<close> call made so far is one a duty in range produces, the same holds after
  \<open>update\<close> at any time, and after any of the eight effect algorithms run on any
  location at any time. Every brightness write of an effect goes through
  \<open>setBrightness\<close>, whose result is in range whatever it is given, and the hardware apply
  that follows it reads the value just stored.
\<close>

theorem duty_range_invariant:
  assumes "duty_inv w" and "pwm_inv w"
  shows "duty_ok (setBrightness b led)
    \<and> duty_inv (update now w) \<and> pwm_inv (update now w)
    \<and> list_all (\<lambda>effect. duty_inv (effect i j now w) \<and> pwm_inv (effect i j now w))
        effect_algorithms"
proof -
  have "duty_inv (update now w)"
    by (rule update_preserves [where Q = duty_inv]) (simp_all add: assms duty_inv_update_led)
  moreover have "pwm_inv (update now w)"
    by (rule update_preserves [where Q = pwm_inv]) (simp_all add: assms pwm_inv_update_led)
  ultimately show ?thesis
    using assms
    by (simp add: effect_algorithms_def update_program_defs duty_inv_run_effect
        pwm_inv_run_effect)
qed

theorem duty_range_invariant_witness:
  "duty_inv example_welding_system \<and> pwm_inv example_welding_system
   \<and> duty_ok (setBrightness 5000 LED_default)
   \<and> duty_inv (update 6000 example_welding_system)
   \<and> pwm_inv (update 6000 example_welding_system)
   \<and> list_all (\<lambda>effect. duty_inv (effect 0 0 6000 example_welding_system)
                        \<and> pwm_inv (effect 0 0 6000 example_welding_system)) effect_algorithms"
proof -
  have d: "duty_inv example_welding_system"
    by (simp add: duty_inv_def all_leds_def example_welding_system_def duty_ok_def
        example_welding_led_def LED_default_def)
  have p: "pwm_inv example_welding_system"
    by (simp add: pwm_inv_def example_welding_system_def setPWM_calls_def)
  show ?thesis
    using d p duty_range_invariant [OF d p, of 5000 LED_default 6000 0 0] by simp
qed

text \<open>
  C2 (as stated, for channel copies). A LED that runs the welding program satisfies the
  invariant, its copy does not: the copy constructor copies the kind and sets the state
  pointer to null.
\<close>

theorem copy_breaks_kind_state_counterexample:
  "kind_state_ok example_welding_led \<and> \<not> kind_state_ok (LED_copy example_welding_led)"
  by (simp add: kind_state_ok_def example_welding_led_def LED_copy_def LED_default_def)

text \<open>
  C2 (amended). The invariant "kind is None exactly when the state is absent", when it
  holds of every channel, holds of every channel after \<open>assign_program\<close>,
  \<open>unassign_program\<close> and \<open>update\<close> (the queries \<open>is_program_assigned\<close> and
  \<open>get_program_type\<close> are functions of the system and change nothing). A copy of a
  channel, by the copy constructor or by assignment, keeps the kind and has no state:
  it satisfies the invariant exactly when the kind of the source is None.
\<close>

theorem kind_state_invariant:
  assumes "kind_state_inv w"
  shows "kind_state_inv (snd (assign_program module_id led_id pt millis_now w))
    \<and> kind_state_inv (snd (unassign_program module_id led_id w))
    \<and> kind_state_inv (update now w)
    \<and> (kind_state_ok (LED_copy other) \<longleftrightarrow> program_type other = PROGRAM_NONE)
    \<and> (kind_state_ok (LED_assign this other) \<longleftrightarrow> program_type other = PROGRAM_NONE)"
proof -
  have "kind_state_inv (update now w)"
    by (rule update_preserves [where Q = kind_state_inv])
       (simp_all add: assms kind_state_inv_update_led)
  then show ?thesis
    using assms
    by (simp add: kind_state_inv_assign kind_state_inv_unassign kind_state_ok_def
        LED_copy_def LED_assign_def)
qed

theorem kind_state_invariant_witness:
  "kind_state_inv example_welding_system
   \<and> kind_state_inv (snd (assign_program 0 1 PROGRAM_HEARTBEAT 5000 example_welding_system))
   \<and> kind_state_inv (snd (unassign_program 0 1 example_welding_system))
   \<and> kind_state_inv (update 6000 example_welding_system)
   \<and> (kind_state_ok (LED_copy LED_default) \<longleftrightarrow> program_type LED_default = PROGRAM_NONE)
   \<and> (kind_state_ok (LED_assign example_welding_led LED_default)
        \<longleftrightarrow> program_type LED_default = PROGRAM_NONE)"
proof -
  have h: "kind_state_inv example_welding_system"
    by (simp add: kind_state_inv_def all_leds_def example_welding_system_def kind_state_ok_def
        example_welding_led_def LED_default_def)
  show ?thesis
    using h kind_state_invariant [OF h, of 0 1 PROGRAM_HEARTBEAT 5000 6000 LED_default
        example_welding_led]
    by simp
qed

text \<open>
  C7. At a location that is not valid, \<open>assign_program\<close> (for any kind, at any time) and
  \<open>unassign_program\<close> return false and the system they return is the one they were
  given: no channel, and nothing else, has changed.
\<close>

theorem invalid_location_rejected:
  "\<not> valid_location w module_id led_id \<Longrightarrow>
     assign_program module_id led_id pt millis_now w = (False, w)
     \<and> unassign_program module_id led_id w = (False, w)"
  by (simp add: assign_invalid unassign_invalid)

theorem invalid_location_rejected_witness:
  "\<not> valid_location example_system 0 2
   \<and> assign_program 0 2 PROGRAM_WELDING 5000 example_system = (False, example_system)
   \<and> unassign_program 0 2 example_system = (False, example_system)"
proof -
  have h: "\<not> valid_location example_system 0 2"
    by (simp add: valid_location_def example_system_def getModuleCount_def getLedCount_def)
  show ?thesis using h invalid_location_rejected [OF h, of PROGRAM_WELDING 5000] by simp
qed

text \<open>
  C8. Assigning the kind None is unassigning: at every valid location (and at every
  other location too) \<open>assign_program\<close> with \<open>PROGRAM_NONE\<close> returns the same result and
  the same system as \<open>unassign_program\<close>.
\<close>

theorem assign_none_is_unassign:
  "valid_location w module_id led_id \<Longrightarrow>
     assign_program module_id led_id PROGRAM_NONE millis_now w
       = unassign_program module_id led_id w"
  by (auto simp: assign_program_def unassign_program_def split: option.splits)

theorem assign_none_is_unassign_witness:
  "valid_location example_system 0 1
   \<and> assign_program 0 1 PROGRAM_NONE 5000 example_system = unassign_program 0 1 example_system"
proof -
  have h: "valid_location example_system 0 1"
    by (simp add: valid_location_def example_system_def getModuleCount_def getLedCount_def)
  show ?thesis using h assign_none_is_unassign [OF h, of 5000] by simp
qed

text \<open>
  C9. A channel that is disabled, or has no program, is skipped by \<open>update\<close>: after any
  sequence of updates the channel is exactly as before, duty and runtime state
  (with \<open>start_time\<close> and \<open>next_event\<close>) included. Enabling it afterwards changes the
  enabled flag only, so the effect goes on from the state it had when it was disabled.
\<close>

theorem skipped_channel_unchanged:
  assumes "getLED w module_id led_id = Some led"
    and "\<not> enabled led \<or> program_type led = PROGRAM_NONE"
  shows "getLED (update now w) module_id led_id = Some led
    \<and> getLED (fold update ticks w) module_id led_id = Some led
    \<and> getLED (modLED module_id led_id (setEnabled True) (fold update ticks w))
          module_id led_id = Some (led\<lparr>enabled := True\<rparr>)"
proof -
  have step: "getLED (update t w') module_id led_id = Some led"
    if "getLED w' module_id led_id = Some led" for t w'
    using that assms(2) by (intro update_at [OF that]) (simp add: update_led_skip)
  have all: "getLED (fold update ticks w) module_id led_id = Some led"
    by (rule fold_preserves [where Q = "\<lambda>w'. getLED w' module_id led_id = Some led"])
       (auto simp: assms(1) step)
  show ?thesis
    using step [OF assms(1)] all by (simp add: getLED_modLED setEnabled_def)
qed

theorem skipped_channel_unchanged_witness:
  "getLED example_paused_system 0 1 = Some example_paused_led
   \<and> \<not> enabled example_paused_led
   \<and> getLED (update 6250 example_paused_system) 0 1 = Some example_paused_led
   \<and> getLED (fold update [6250, 6260] example_paused_system) 0 1 = Some example_paused_led
   \<and> getLED (modLED 0 1 (setEnabled True) (fold update [6250, 6260] example_paused_system))
         0 1 = Some (example_paused_led\<lparr>enabled := True\<rparr>)"
proof -
  have g: "getLED example_system 0 1 = Some LED_default"
    by (simp add: getLED_eq example_system_def)
  have h1: "getLED example_paused_system 0 1 = Some example_paused_led"
    using getLED_assign [OF g, of PROGRAM_SIMPLE_BLINK 5000 0 1]
    by (simp add: example_paused_system_def example_paused_led_def initial_state_def)
  have h2: "\<not> enabled example_paused_led \<or> program_type example_paused_led = PROGRAM_NONE"
    by (simp add: example_paused_led_def LED_default_def)
  have h3: "\<not> enabled example_paused_led"
    by (simp add: example_paused_led_def LED_default_def)
  show ?thesis
    using h1 h3 skipped_channel_unchanged [OF h1 h2, of 6250 "[6250, 6260]"] by simp
qed




text \<open>
  C3 (as stated). On the example system, SimpleBlink is assigned to the first channel at
  time 5000 and \<open>update\<close> at 6250 yields duty 0; it is assigned again at time 7000, and
  \<open>update\<close> 1250 ms after this new start, at 8250, yields duty 0 again, not 4095.
\<close>

theorem simple_blink_reassign_counterexample:
  "duty_at (update 6250 (snd (assign_program 0 0 PROGRAM_SIMPLE_BLINK 5000 example_system)))
     0 0 = Some 0
   \<and> duty_at (update 8250
          (snd (assign_program 0 0 PROGRAM_SIMPLE_BLINK 7000
             (update 6250 (snd (assign_program 0 0 PROGRAM_SIMPLE_BLINK 5000 example_system))))))
        0 0 = Some 0
   \<and> duty_at (update 8250
          (snd (assign_program 0 0 PROGRAM_SIMPLE_BLINK 7000
             (update 6250 (snd (assign_program 0 0 PROGRAM_SIMPLE_BLINK 5000 example_system))))))
        0 0 \<noteq> Some SIMPLE_BLINK_INTENSITY"
proof -
  have g: "getLED example_system 0 0 = Some (LED_default\<lparr>enabled := True\<rparr>)"
    by (simp add: getLED_eq example_system_def)
  have e: "enabled (LED_default\<lparr>enabled := True\<rparr>)" by simp
  have a: "(5000 :: millis) \<noteq> 0" "\<not> (5000 :: millis) + 1250 < 50" by simp_all
  have b: "(7000 :: millis) \<noteq> 0" "\<not> (7000 :: millis) + 1250 < 50" by simp_all
  note first = blink_after_assign [OF g e a]
  have en: "enabled (LED_default\<lparr>enabled := True, program_type := PROGRAM_SIMPLE_BLINK,
                brightness := (if (1250 :: millis) mod 2000 < 1000 then 4095 else 0),
                program_state := Some ((initialize_default_state 5000 new_ProgramState)
                                         \<lparr>last_update := 5000 + 1250\<rparr>)\<rparr>)"
    by simp
  note second = blink_after_assign [OF first en b]
  show ?thesis
    using first second by (simp add: duty_at_def)
qed

text \<open>
  C3 (amended). Re-assigning the same kind resets the cycle anchor to the time of the new
  assignment. For a valid, enabled channel, with assignment times other than 0 and ticks
  that are not throttled (the tick time is not below 50, which only a wrap-around of
  the millisecond clock can cause): after SimpleBlink is assigned at \<open>t1\<close>, \<open>update\<close> at
  \<open>t1 + 1250\<close> yields duty 0 (OFF half of the 2000 ms cycle); after it is assigned again at
  \<open>t2\<close>, \<open>update\<close> at \<open>t2 + 1250\<close> yields duty 0 again, and \<open>update\<close> at \<open>t2 + d\<close> for any
  \<open>d\<close> below 1000 yields duty 4095 (ON half).
\<close>

theorem simple_blink_reassign:
  assumes "getLED w module_id led_id = Some led" and "enabled led"
    and "t1 \<noteq> 0" and "\<not> t1 + 1250 < 50"
    and "t2 \<noteq> 0" and "\<not> t2 + 1250 < 50"
    and "d < 1000" and "\<not> t2 + d < 50"
  shows "duty_at (update (t1 + 1250)
            (snd (assign_program module_id led_id PROGRAM_SIMPLE_BLINK t1 w)))
           module_id led_id = Some 0
    \<and> duty_at (update (t2 + 1250)
            (snd (assign_program module_id led_id PROGRAM_SIMPLE_BLINK t2
               (update (t1 + 1250)
                  (snd (assign_program module_id led_id PROGRAM_SIMPLE_BLINK t1 w))))))
           module_id led_id = Some 0
    \<and> duty_at (update (t2 + d)
            (snd (assign_program module_id led_id PROGRAM_SIMPLE_BLINK t2
               (update (t1 + 1250)
                  (snd (assign_program module_id led_id PROGRAM_SIMPLE_BLINK t1 w))))))
           module_id led_id = Some SIMPLE_BLINK_INTENSITY"
proof -
  let ?w1 = "update (t1 + 1250) (snd (assign_program module_id led_id PROGRAM_SIMPLE_BLINK t1 w))"
  note first = blink_after_assign [OF assms(1,2,3,4)]
  have en: "enabled (led\<lparr>program_type := PROGRAM_SIMPLE_BLINK,
                brightness := (if (1250 :: millis) mod 2000 < 1000 then 4095 else 0),
                program_state := Some ((initialize_default_state t1 new_ProgramState)
                                         \<lparr>last_update := t1 + 1250\<rparr>)\<rparr>)"
    using assms(2) by simp
  note second = blink_after_assign [OF first en assms(5,6)]
  note third = blink_after_assign [OF first en assms(5,8)]
  have "d mod 2000 = d"
    using assms(7) by (intro word_mod_small) unat_arith
  then show ?thesis
    using first second third assms(7) by (simp add: duty_at_def)
qed

theorem simple_blink_reassign_witness:
  "getLED example_system 0 0 = Some (LED_default\<lparr>enabled := True\<rparr>)
   \<and> enabled (LED_default\<lparr>enabled := True\<rparr>)
   \<and> (5000 :: millis) \<noteq> 0 \<and> \<not> (5000 :: millis) + 1250 < 50
   \<and> (7000 :: millis) \<noteq> 0 \<and> \<not> (7000 :: millis) + 1250 < 50
   \<and> (250 :: millis) < 1000 \<and> \<not> (7000 :: millis) + 250 < 50
   \<and> duty_at (update 6250 (snd (assign_program 0 0 PROGRAM_SIMPLE_BLINK 5000 example_system)))
        0 0 = Some 0
   \<and> duty_at (update 8250
          (snd (assign_program 0 0 PROGRAM_SIMPLE_BLINK 7000
             (update 6250 (snd (assign_program 0 0 PROGRAM_SIMPLE_BLINK 5000 example_system))))))
        0 0 = Some 0
   \<and> duty_at (update 7250
          (snd (assign_program 0 0 PROGRAM_SIMPLE_BLINK 7000
             (update 6250 (snd (assign_program 0 0 PROGRAM_SIMPLE_BLINK 5000 example_system))))))
        0 0 = Some 4095"
proof -
  have g: "getLED example_system 0 0 = Some (LED_default\<lparr>enabled := True\<rparr>)"
    by (simp add: getLED_eq example_system_def)
  have e: "enabled (LED_default\<lparr>enabled := True\<rparr>)" by simp
  have a: "(5000 :: millis) \<noteq> 0" "\<not> (5000 :: millis) + 1250 < 50" by simp_all
  have b: "(7000 :: millis) \<noteq> 0" "\<not> (7000 :: millis) + 1250 < 50" by simp_all
  have c: "(250 :: millis) < 1000" "\<not> (7000 :: millis) + 250 < 50" by simp_all
  show ?thesis
    using g simple_blink_reassign [OF g e a b c] by simp
qed

text \<open>
  C5 (as stated). On the example welding system the tick of the welding effect at 5500
  is not throttled (the state was last updated at 0) and no flash is active or due: the
  effect stamps \<open>last_update\<close>, and neither writes a duty nor invokes the hardware apply.
\<close>

theorem idle_welding_tick_counterexample:
  "getLED example_welding_system 0 0 = Some example_welding_led
   \<and> program_state example_welding_led = Some (new_ProgramState\<lparr>next_event := 6000\<rparr>)
   \<and> \<not> throttled 10 5500 (new_ProgramState\<lparr>next_event := 6000\<rparr>)
   \<and> last_update_at (update_welding_program 0 0 5500 example_welding_system) 0 0 = Some 5500
   \<and> duty_at (update_welding_program 0 0 5500 example_welding_system) 0 0
        = duty_at example_welding_system 0 0
   \<and> map setPWM_calls (modules (update_welding_program 0 0 5500 example_welding_system))
        = map setPWM_calls (modules example_welding_system)"
proof -
  let ?st = "new_ProgramState\<lparr>next_event := 6000\<rparr>"
  have g: "getLED example_welding_system 0 0 = Some example_welding_led"
    by (simp add: getLED_eq example_welding_system_def)
  have p: "program_state example_welding_led = Some ?st"
    by (simp add: example_welding_led_def)
  have t: "welding_tick 5500 example_welding_led ?st (\<lambda>n. 0)
             = Some (?st\<lparr>last_update := 5500\<rparr>, [], \<lambda>n. 0)"
    by (simp add: welding_tick_def new_ProgramState_def)
  have r: "random_source example_welding_system = (\<lambda>n. 0)"
    by (simp add: example_welding_system_def)
  have u: "update_welding_program 0 0 5500 example_welding_system
             = setState 0 0 (?st\<lparr>last_update := 5500\<rparr>) example_welding_system"
    by (simp add: update_welding_program_def run_effect_def g p t r)
       (simp add: example_welding_system_def)
  have th: "\<not> throttled 10 5500 ?st"
    by (simp add: throttled_def new_ProgramState_def)
  show ?thesis
    using g p th
    by (simp add: u last_update_at_def duty_at_def getLED_setState)
       (simp add: setState_def modLED_def setLED_def example_welding_system_def getLED_eq
          setPWM_calls_def)
qed


text \<open>
  C5 (amended). For a channel with a runtime state, every tick of an effect that is not
  throttled by the effect's own refresh rate sets \<open>last_update = now\<close>. On such a tick
  Heartbeat, Breathing, SimpleBlink, FireboxGlow, CandleFlicker and FrenchCrossing compute
  exactly one duty, store it in the channel (as \<open>setBrightness\<close> stores it, clamped to
  4095) and invoke the hardware apply once, which on a ready module makes the \<^verbatim>\<open>setPWM\<close>
  call that carries this duty. Welding computes, writes and applies one duty while a flash
  is active, two on the tick that starts a flash (no flash active and \<open>next_event\<close>
  reached), and none otherwise. TvFlicker computes, writes and applies one duty when a
  flicker event is due (not active, or \<open>next_event\<close> reached), and none otherwise. Where
  no duty is computed, the stored duty and the \<^verbatim>\<open>setPWM\<close> calls are those of before.
\<close>

theorem effect_tick_outcome:
  assumes "getLED w i j = Some led" and "program_state led = Some state"
  shows "(\<not> throttled 10 now state \<longrightarrow>
            length (computed_duties (welding_tick now) led state w)
              = (if active state then 1 else if next_event state \<le> now then 2 else 0)
            \<and> tick_outcome now i j w (update_welding_program i j now w)
                (computed_duties (welding_tick now) led state w))
    \<and> (\<not> throttled 20 now state \<longrightarrow>
            length (computed_duties (heartbeat_tick now) led state w) = 1
            \<and> tick_outcome now i j w (update_heartbeat_program i j now w)
                (computed_duties (heartbeat_tick now) led state w))
    \<and> (\<not> throttled 20 now state \<longrightarrow>
            length (computed_duties (breathing_tick now) led state w) = 1
            \<and> tick_outcome now i j w (update_breathing_program i j now w)
                (computed_duties (breathing_tick now) led state w))
    \<and> (\<not> throttled 50 now state \<longrightarrow>
            length (computed_duties (simple_blink_tick now) led state w) = 1
            \<and> tick_outcome now i j w (update_simple_blink_program i j now w)
                (computed_duties (simple_blink_tick now) led state w))
    \<and> (\<not> throttled 20 now state \<longrightarrow>
            length (computed_duties (tv_flicker_tick now) led state w)
              = (if \<not> active state \<or> next_event state \<le> now then 1 else 0)
            \<and> tick_outcome now i j w (update_tv_flicker_program i j now w)
                (computed_duties (tv_flicker_tick now) led state w))
    \<and> (\<not> throttled 20 now state \<longrightarrow>
            length (computed_duties (firebox_glow_tick now) led state w) = 1
            \<and> tick_outcome now i j w (update_firebox_glow_program i j now w)
                (computed_duties (firebox_glow_tick now) led state w))
    \<and> (\<not> throttled 25 now state \<longrightarrow>
            length (computed_duties (candle_flicker_tick now) led state w) = 1
            \<and> tick_outcome now i j w (update_candle_flicker_program i j now w)
                (computed_duties (candle_flicker_tick now) led state w))
    \<and> (\<not> throttled 10 now state \<longrightarrow>
            length (computed_duties (french_crossing_tick now) led state w) = 1
            \<and> tick_outcome now i j w (update_french_crossing_program i j now w)
                (computed_duties (french_crossing_tick now) led state w))"
proof -
  have run: "length (computed_duties tick led state w) = n
      \<and> tick_outcome now i j w (run_effect tick i j w) (computed_duties tick led state w)"
    if "\<exists>st' bs rs'. tick led state (random_source w) = Some (st', bs, rs')
          \<and> last_update st' = now \<and> length bs = n" for tick n
  proof -
    from that obtain st' bs rs' where t: "tick led state (random_source w) = Some (st', bs, rs')"
      "last_update st' = now" "length bs = n" by blast
    then have "computed_duties tick led state w = bs"
      by (simp add: computed_duties_def)
    then show ?thesis
      using run_effect_outcome [where tick = tick, OF assms t(1,2)] t(3) by simp
  qed
  have one: "length (computed_duties tick led state w) = 1
      \<and> tick_outcome now i j w (run_effect tick i j w) (computed_duties tick led state w)"
    if "\<exists>st' b rs'. tick led state (random_source w) = Some (st', [b], rs')
          \<and> last_update st' = now" for tick
  proof (rule run)
    from that obtain st' b rs' where "tick led state (random_source w) = Some (st', [b], rs')"
      "last_update st' = now" by blast
    then show "\<exists>st' bs rs'. tick led state (random_source w) = Some (st', bs, rs')
          \<and> last_update st' = now \<and> length bs = 1" by simp
  qed
  have c1: "\<not> throttled 10 now state \<longrightarrow>
            length (computed_duties (welding_tick now) led state w) = (if active state then 1 else if next_event state \<le> now then 2 else 0)
            \<and> tick_outcome now i j w (run_effect (welding_tick now) i j w)
                (computed_duties (welding_tick now) led state w)"
  proof
    assume t: "\<not> throttled 10 now state"
    show "length (computed_duties (welding_tick now) led state w) = (if active state then 1 else if next_event state \<le> now then 2 else 0)
            \<and> tick_outcome now i j w (run_effect (welding_tick now) i j w)
                (computed_duties (welding_tick now) led state w)"
      by (rule run [where tick = "welding_tick now", OF welding_tick_shape [OF t]])
  qed
  have c2: "\<not> throttled 20 now state \<longrightarrow>
            length (computed_duties (heartbeat_tick now) led state w) = 1
            \<and> tick_outcome now i j w (run_effect (heartbeat_tick now) i j w)
                (computed_duties (heartbeat_tick now) led state w)"
  proof
    assume t: "\<not> throttled 20 now state"
    show "length (computed_duties (heartbeat_tick now) led state w) = 1
            \<and> tick_outcome now i j w (run_effect (heartbeat_tick now) i j w)
                (computed_duties (heartbeat_tick now) led state w)"
      by (rule one [where tick = "heartbeat_tick now", OF heartbeat_tick_shape [OF t]])
  qed
  have c3: "\<not> throttled 20 now state \<longrightarrow>
            length (computed_duties (breathing_tick now) led state w) = 1
            \<and> tick_outcome now i j w (run_effect (breathing_tick now) i j w)
                (computed_duties (breathing_tick now) led state w)"
  proof
    assume t: "\<not> throttled 20 now state"
    show "length (computed_duties (breathing_tick now) led state w) = 1
            \<and> tick_outcome now i j w (run_effect (breathing_tick now) i j w)
                (computed_duties (breathing_tick now) led state w)"
      by (rule one [where tick = "breathing_tick now", OF breathing_tick_shape [OF t]])
  qed
  have c4: "\<not> throttled 50 now state \<longrightarrow>
            length (computed_duties (simple_blink_tick now) led state w) = 1
            \<and> tick_outcome now i j w (run_effect (simple_blink_tick now) i j w)
                (computed_duties (simple_blink_tick now) led state w)"
  proof
    assume t: "\<not> throttled 50 now state"
    show "length (computed_duties (simple_blink_tick now) led state w) = 1
            \<and> tick_outcome now i j w (run_effect (simple_blink_tick now) i j w)
                (computed_duties (simple_blink_tick now) led state w)"
      by (rule one [where tick = "simple_blink_tick now", OF simple_blink_tick_shape [OF t]])
  qed
  have c5: "\<not> throttled 20 now state \<longrightarrow>
            length (computed_duties (tv_flicker_tick now) led state w) = (if \<not> active state \<or> next_event state \<le> now then 1 else 0)
            \<and> tick_outcome now i j w (run_effect (tv_flicker_tick now) i j w)
                (computed_duties (tv_flicker_tick now) led state w)"
  proof
    assume t: "\<not> throttled 20 now state"
    show "length (computed_duties (tv_flicker_tick now) led state w) = (if \<not> active state \<or> next_event state \<le> now then 1 else 0)
            \<and> tick_outcome now i j w (run_effect (tv_flicker_tick now) i j w)
                (computed_duties (tv_flicker_tick now) led state w)"
      by (rule run [where tick = "tv_flicker_tick now", OF tv_flicker_tick_shape [OF t]])
  qed
  have c6: "\<not> throttled 20 now state \<longrightarrow>
            length (computed_duties (firebox_glow_tick now) led state w) = 1
            \<and> tick_outcome now i j w (run_effect (firebox_glow_tick now) i j w)
                (computed_duties (firebox_glow_tick now) led state w)"
  proof
    assume t: "\<not> throttled 20 now state"
    show "length (computed_duties (firebox_glow_tick now) led state w) = 1
            \<and> tick_outcome now i j w (run_effect (firebox_glow_tick now) i j w)
                (computed_duties (firebox_glow_tick now) led state w)"
      by (rule one [where tick = "firebox_glow_tick now", OF firebox_glow_tick_shape [OF t]])
  qed
  have c7: "\<not> throttled 25 now state \<longrightarrow>
            length (computed_duties (candle_flicker_tick now) led state w) = 1
            \<and> tick_outcome now i j w (run_effect (candle_flicker_tick now) i j w)
                (computed_duties (candle_flicker_tick now) led state w)"
  proof
    assume t: "\<not> throttled 25 now state"
    show "length (computed_duties (candle_flicker_tick now) led state w) = 1
            \<and> tick_outcome now i j w (run_effect (candle_flicker_tick now) i j w)
                (computed_duties (candle_flicker_tick now) led state w)"
      by (rule one [where tick = "candle_flicker_tick now", OF candle_flicker_tick_shape [OF t]])
  qed
  have c8: "\<not> throttled 10 now state \<longrightarrow>
            length (computed_duties (french_crossing_tick now) led state w) = 1
            \<and> tick_outcome now i j w (run_effect (french_crossing_tick now) i j w)
                (computed_duties (french_crossing_tick now) led state w)"
  proof
    assume t: "\<not> throttled 10 now state"
    show "length (computed_duties (french_crossing_tick now) led state w) = 1
            \<and> tick_outcome now i j w (run_effect (french_crossing_tick now) i j w)
                (computed_duties (french_crossing_tick now) led state w)"
      by (rule one [where tick = "french_crossing_tick now", OF french_crossing_tick_shape [OF t]])
  qed
  show ?thesis
    unfolding update_program_defs
    by (intro conjI) (fact c1 c2 c3 c4 c5 c6 c7 c8)+
qed

theorem effect_tick_outcome_witness:
  "getLED example_welding_system 0 0 = Some example_welding_led
   \<and> program_state example_welding_led = Some (new_ProgramState\<lparr>next_event := 6000\<rparr>)
   \<and> \<not> throttled 50 5500 (new_ProgramState\<lparr>next_event := 6000\<rparr>)
   \<and> \<not> throttled 25 5500 (new_ProgramState\<lparr>next_event := 6000\<rparr>)
   \<and> \<not> throttled 20 5500 (new_ProgramState\<lparr>next_event := 6000\<rparr>)
   \<and> \<not> throttled 10 5500 (new_ProgramState\<lparr>next_event := 6000\<rparr>)
   \<and> length (computed_duties (welding_tick 5500) example_welding_led
                (new_ProgramState\<lparr>next_event := 6000\<rparr>) example_welding_system) = 0
   \<and> tick_outcome 5500 0 0 example_welding_system
        (update_welding_program 0 0 5500 example_welding_system)
        (computed_duties (welding_tick 5500) example_welding_led
           (new_ProgramState\<lparr>next_event := 6000\<rparr>) example_welding_system)
   \<and> length (computed_duties (heartbeat_tick 5500) example_welding_led
                (new_ProgramState\<lparr>next_event := 6000\<rparr>) example_welding_system) = 1
   \<and> tick_outcome 5500 0 0 example_welding_system
        (update_heartbeat_program 0 0 5500 example_welding_system)
        (computed_duties (heartbeat_tick 5500) example_welding_led
           (new_ProgramState\<lparr>next_event := 6000\<rparr>) example_welding_system)
   \<and> length (computed_duties (breathing_tick 5500) example_welding_led
                (new_ProgramState\<lparr>next_event := 6000\<rparr>) example_welding_system) = 1
   \<and> tick_outcome 5500 0 0 example_welding_system
        (update_breathing_program 0 0 5500 example_welding_system)
        (computed_duties (breathing_tick 5500) example_welding_led
           (new_ProgramState\<lparr>next_event := 6000\<rparr>) example_welding_system)
   \<and> length (computed_duties (simple_blink_tick 5500) example_welding_led
                (new_ProgramState\<lparr>next_event := 6000\<rparr>) example_welding_system) = 1
   \<and> tick_outcome 5500 0 0 example_welding_system
        (update_simple_blink_program 0 0 5500 example_welding_system)
        (computed_duties (simple_blink_tick 5500) example_welding_led
           (new_ProgramState\<lparr>next_event := 6000\<rparr>) example_welding_system)
   \<and> length (computed_duties (tv_flicker_tick 5500) example_welding_led
                (new_ProgramState\<lparr>next_event := 6000\<rparr>) example_welding_system) = 1
   \<and> tick_outcome 5500 0 0 example_welding_system
        (update_tv_flicker_program 0 0 5500 example_welding_system)
        (computed_duties (tv_flicker_tick 5500) example_welding_led
           (new_ProgramState\<lparr>next_event := 6000\<rparr>) example_welding_system)
   \<and> length (computed_duties (firebox_glow_tick 5500) example_welding_led
                (new_ProgramState\<lparr>next_event := 6000\<rparr>) example_welding_system) = 1
   \<and> tick_outcome 5500 0 0 example_welding_system
        (update_firebox_glow_program 0 0 5500 example_welding_system)
        (computed_duties (firebox_glow_tick 5500) example_welding_led
           (new_ProgramState\<lparr>next_event := 6000\<rparr>) example_welding_system)
   \<and> length (computed_duties (candle_flicker_tick 5500) example_welding_led
                (new_ProgramState\<lparr>next_event := 6000\<rparr>) example_welding_system) = 1
   \<and> tick_outcome 5500 0 0 example_welding_system
        (update_candle_flicker_program 0 0 5500 example_welding_system)
        (computed_duties (candle_flicker_tick 5500) example_welding_led
           (new_ProgramState\<lparr>next_event := 6000\<rparr>) example_welding_system)
   \<and> length (computed_duties (french_crossing_tick 5500) example_welding_led
                (new_ProgramState\<lparr>next_event := 6000\<rparr>) example_welding_system) = 1
   \<and> tick_outcome 5500 0 0 example_welding_system
        (update_french_crossing_program 0 0 5500 example_welding_system)
        (computed_duties (french_crossing_tick 5500) example_welding_led
           (new_ProgramState\<lparr>next_event := 6000\<rparr>) example_welding_system)"
proof -
  define st where "st = new_ProgramState\<lparr>next_event := 6000\<rparr>"
  have h1: "getLED example_welding_system 0 0 = Some example_welding_led"
    by (simp add: getLED_eq example_welding_system_def)
  have h2: "program_state example_welding_led = Some st"
    by (simp add: example_welding_led_def st_def)
  have t: "\<not> throttled 50 5500 st" "\<not> throttled 25 5500 st" "\<not> throttled 20 5500 st"
    "\<not> throttled 10 5500 st"
    by (simp_all add: throttled_def new_ProgramState_def st_def)
  have s: "\<not> active st" "\<not> next_event st \<le> 5500"
    by (simp_all add: new_ProgramState_def st_def)
  show ?thesis
    unfolding st_def [symmetric]
    using h1 h2 t s effect_tick_outcome [OF h1 h2, of 5500]
    by (simp del: One_nat_def length_0_conv)
qed

text \<open>
  C4 (as stated). In the example the French crossing channel holds the duty 4070 in the ON
  half. The tick at 5500 is the first of the OFF half: the OFF phase begins there, at
  cool-down progress 0, where the stated curve, scaled from the intensity at the start of
  the phase, gives 4070. The code writes 0.
\<close>

theorem french_crossing_cooldown_counterexample:
  "duty_at example_crossing_system 0 0 = Some 4070
   \<and> spec_cooldown_duty 4070 0 = 4070
   \<and> duty_at (update_french_crossing_program 0 0 5500 example_crossing_system) 0 0 = Some 0
   \<and> duty_at (update_french_crossing_program 0 0 5500 example_crossing_system) 0 0
        \<noteq> Some (spec_cooldown_duty 4070 0)"
proof -
  have d: "duty_at example_crossing_system 0 0 = Some 4070"
    by (simp add: duty_at_def example_crossing_led_reached example_crossing_led_def)
  have s: "spec_cooldown_duty 4070 0 = 4070"
    by (simp add: spec_cooldown_duty_def truncate_def to_uint16_def)
  have "start_time example_crossing_state \<noteq> 0" "\<not> throttled 10 5500 example_crossing_state"
    "500 \<le> (5500 - start_time example_crossing_state) mod 1000"
    by (simp_all add: example_crossing_state_def throttled_def)
  then obtain st' rs' where
    "french_crossing_tick 5500 example_crossing_led example_crossing_state
       (random_source example_crossing_system) = Some (st', [0], rs')"
    using french_crossing_tick_off by blast
  then have "duty_at (update_french_crossing_program 0 0 5500 example_crossing_system) 0 0 = Some 0"
    by (simp add: update_french_crossing_program_def duty_at_def getLED_run_effect
        example_crossing_led_reached brightness_setBrightness example_crossing_led_def)
  then show ?thesis
    using d s by simp
qed

text \<open>
  C4 (amended). For a channel whose state is anchored (\<open>start_time\<close> is not 0), every tick
  of the French crossing effect in the OFF half of the cycle that is not throttled writes
  the duty 0: the extinction is instant. In the cool-down window the factor
  \<open>exp (- 2 * progress)\<close> is computed and multiplied by \<open>FRENCH_CROSSING_WARMUP_MIN\<close>,
  which is 0; after the window 0 is written as such. So the duty is 0 at cool-down
  completion and through the OFF half. Every tick of the effect that is not throttled, in
  the warm-up and the hold with its jitter too, leaves a duty of at most 4095.
\<close>

theorem french_crossing_off_half_is_dark:
  assumes "getLED w module_id led_id = Some led" and "program_state led = Some state"
    and "start_time state \<noteq> 0" and "\<not> throttled 10 now state"
    and "500 \<le> (now - start_time state) mod 1000"
  shows "duty_at (update_french_crossing_program module_id led_id now w) module_id led_id
           = Some 0
    \<and> (\<not> throttled 10 t state \<longrightarrow>
          map_option duty_ok
            (getLED (update_french_crossing_program module_id led_id t w) module_id led_id)
            = Some True)"
proof -
  obtain st' rs' where "french_crossing_tick now led state (random_source w) = Some (st', [0], rs')"
    using french_crossing_tick_off [OF assms(3,4,5)] by blast
  then have off: "duty_at (update_french_crossing_program module_id led_id now w) module_id led_id
           = Some 0"
    using assms(1,2)
    by (simp add: update_french_crossing_program_def duty_at_def getLED_run_effect
        brightness_setBrightness)
  have "map_option duty_ok
          (getLED (update_french_crossing_program module_id led_id t w) module_id led_id)
          = Some True"
    if nt: "\<not> throttled 10 t state"
  proof -
    obtain st' b rs' where
      "french_crossing_tick t led state (random_source w) = Some (st', [b], rs')"
      using french_crossing_tick_shape [OF nt] by blast
    then show ?thesis
      using assms(1,2)
      by (simp add: update_french_crossing_program_def getLED_run_effect)
  qed
  with off show ?thesis by simp
qed

theorem french_crossing_off_half_is_dark_witness:
  "getLED example_crossing_system 0 0 = Some example_crossing_led
   \<and> program_state example_crossing_led = Some example_crossing_state
   \<and> brightness example_crossing_led = 4070
   \<and> start_time example_crossing_state \<noteq> 0
   \<and> \<not> throttled 10 5500 example_crossing_state
   \<and> 500 \<le> (5500 - start_time example_crossing_state) mod 1000
   \<and> duty_at (update_french_crossing_program 0 0 5500 example_crossing_system) 0 0 = Some 0
   \<and> \<not> throttled 10 5450 example_crossing_state
   \<and> map_option duty_ok
        (getLED (update_french_crossing_program 0 0 5450 example_crossing_system) 0 0)
        = Some True"
proof -
  note h1 = example_crossing_led_reached
  have h2: "program_state example_crossing_led = Some example_crossing_state"
    and b: "brightness example_crossing_led = 4070"
    by (simp_all add: example_crossing_led_def)
  have h3: "start_time example_crossing_state \<noteq> 0"
    and h4: "\<not> throttled 10 5500 example_crossing_state"
    and h5: "500 \<le> (5500 - start_time example_crossing_state) mod 1000"
    and h6: "\<not> throttled 10 5450 example_crossing_state"
    by (simp_all add: example_crossing_state_def throttled_def)
  show ?thesis
    using h1 h2 b h3 h4 h5 h6 french_crossing_off_half_is_dark [OF h1 h2 h3 h4 h5, of 5450]
    by simp
qed

text \<open>
  C6 (what the code does). While a welding flash is in its first 70% (at most 38 ms after
  its start), a tick that is not throttled and draws a negative jitter (a raw draw whose
  remainder modulo 401 is below 200, that is a variation from -200 to -1) writes the duty
  4095, whatever the peak intensity of the flash: the variation is stored in a
  \<^verbatim>\<open>uint16_t\<close>, where it becomes 65536 more, and the sum is constrained to 4095.
  In the example the flash has peak intensity 1000 and the duty is 1000; the tick at 6010
  draws the variation -1 and writes 4095.
\<close>

theorem welding_negative_jitter_saturates:
  assumes "getLED w module_id led_id = Some led" and "program_state led = Some state"
    and "active state" and "\<not> throttled 10 now state"
    and "unat (now - start_time state) \<le> 38"
    and "random_source w 0 mod 401 < 200"
  shows "duty_at (update_welding_program module_id led_id now w) module_id led_id = Some 4095"
proof -
  obtain st' rs' where "welding_tick now led state (random_source w) = Some (st', [4095], rs')"
    using welding_tick_negative_jitter [where rs = "random_source w", OF assms(3,4,5,6)] by blast
  then show ?thesis
    using assms(1,2)
    by (simp add: update_welding_program_def duty_at_def getLED_run_effect
        brightness_setBrightness)
qed

theorem welding_negative_jitter_saturates_witness:
  "getLED example_flash_system 0 0 = Some example_flash_led
   \<and> program_state example_flash_led = Some example_flash_state
   \<and> brightness example_flash_led = 1000
   \<and> current_intensity example_flash_state = 1000
   \<and> active example_flash_state
   \<and> \<not> throttled 10 6010 example_flash_state
   \<and> unat (6010 - start_time example_flash_state) \<le> 38
   \<and> random_source example_flash_system 0 mod 401 < 200
   \<and> duty_at (update_welding_program 0 0 6010 example_flash_system) 0 0 = Some 4095"
proof -
  note h1 = example_flash_reached(1)
  have h2: "program_state example_flash_led = Some example_flash_state"
    and b: "brightness example_flash_led = 1000"
    by (simp_all add: example_flash_led_def)
  have c: "current_intensity example_flash_state = 1000"
    and h3: "active example_flash_state"
    and h4: "\<not> throttled 10 6010 example_flash_state"
    and h5: "unat (6010 - start_time example_flash_state) \<le> 38"
    by (simp_all add: example_flash_state_def throttled_def)
  have h6: "random_source example_flash_system 0 mod 401 < 200"
    by (simp add: example_flash_reached(2))
  show ?thesis
    using h1 h2 b c h3 h4 h5 h6 welding_negative_jitter_saturates [OF h1 h2 h3 h4 h5 h6]
    by simp
qed

end
